theory Spec2Isabelle
  imports Complex_Main "HOL-Library.Sublist"
begin

section \<open>Python values and errors\<close>

text \<open>
  Identifiers are UUIDs in the source; only equality of identifiers is ever used, so they
  are natural numbers here. Exceptions are values of \<open>error\<close>; a function that can raise
  returns \<open>error + 'a\<close> with \<open>Inl\<close> for the exception.
\<close>

type_synonym uuid = nat

datatype error =
    ValueError string uuid
  | AttributeError string
  | TypeError
  | ZeroDivisionError
  | SQLAlchemyError
  | LLMError
  | OSError

text \<open>
  Python's true division \<open>a / b\<close> on integers raises on a zero divisor. The result is the
  exact quotient; Python returns the double nearest to it.
\<close>

definition py_truediv :: "int \<Rightarrow> int \<Rightarrow> error + real" where
  "py_truediv a b = (if b = 0 then Inl ZeroDivisionError else Inr (real_of_int a / real_of_int b))"

section \<open>models/session.py\<close>

datatype SessionStatus = ACTIVE | COMPLETED | TERMINATED

record Session =
  session_id :: uuid
  task_description :: string
  max_tokens :: int
  current_tokens :: int
  status :: SessionStatus
  created_at :: nat

text \<open>The property \<open>Session.context_usage\<close>: the guard on \<open>max_tokens == 0\<close>, then the division.\<close>

definition context_usage :: "Session \<Rightarrow> error + real" where
  "context_usage s =
     (if max_tokens s = 0 then Inr 0
      else py_truediv (current_tokens s) (max_tokens s))"

text \<open>\<open>context_usage_percent\<close> is \<open>int(context_usage * 100)\<close>; \<open>int\<close> truncates towards zero.
  The product is exact here, where Python rounds it to a double first; no property below
  reads the percentage.\<close>

definition py_int :: "real \<Rightarrow> int" where
  "py_int x = (if x \<ge> 0 then \<lfloor>x\<rfloor> else \<lceil>x\<rceil>)"

definition context_usage_percent :: "Session \<Rightarrow> error + int" where
  "context_usage_percent s =
     (case context_usage s of Inl e \<Rightarrow> Inl e | Inr u \<Rightarrow> Inr (py_int (u * 100)))"

section \<open>The other tables: models/memory.py, checkpoint.py, session\_lineage.py\<close>

datatype MemoryCategory = DECISION | ACTION | ERROR | PROGRESS | CONTEXT | OTHER

datatype MemoryPriority = PRIORITY_HIGH | PRIORITY_NORMAL | PRIORITY_LOW

record Memory =
  memory_id :: uuid
  memory_session_id :: uuid
  memory_content :: string
  memory_category :: MemoryCategory
  memory_priority :: MemoryPriority
  memory_created_at :: nat

text \<open>The \<open>state\<close> column of a checkpoint is a dictionary with these four entries.\<close>

record CheckpointState =
  state_task_description :: string
  state_current_tokens :: int
  state_max_tokens :: int
  state_status :: SessionStatus

text \<open>
  \<open>create_checkpoint\<close> passes its metadata to the constructor as \<open>metadata=\<close>, which is
  not a column of the table (the column is \<open>extra_data\<close>), so the row keeps the column's
  default, an empty dictionary.
\<close>

record Checkpoint =
  checkpoint_id :: uuid
  checkpoint_session_id :: uuid
  label :: string
  state :: CheckpointState
  checkpoint_context_usage :: int
  memories_snapshot :: "uuid list"
  extra_data :: "(string \<times> string) list"
  checkpoint_created_at :: nat

record SessionLineage =
  lineage_id :: uuid
  parent_session_id :: "uuid option"
  child_session_id :: uuid
  handoff_reason :: string
  handoff_prompt :: string
  lineage_checkpoint_id :: "uuid option"
  lineage_created_at :: nat

section \<open>The database session (core/database.py)\<close>

text \<open>
  A \<open>store\<close> is the content of the four tables. A database session \<open>db\<close> holds the
  committed store, the store as the unit of work sees it (the committed rows with the
  pending additions and changes), what the engine will answer to the coming commits
  (\<open>True\<close>: the commit fails, for whatever reason the engine has; an exhausted list:
  the commit succeeds) and the store's clock. A failed commit raises and rolls the unit
  of work back. The identifiers \<open>uuid4()\<close> draws are arguments of the functions that
  insert rows.
\<close>

record store =
  sessions :: "Session list"
  memories :: "Memory list"
  checkpoints :: "Checkpoint list"
  session_lineage :: "SessionLineage list"

record db =
  persisted :: store
  working :: store
  faults :: "bool list"
  now :: nat

definition db_get_session :: "db \<Rightarrow> uuid \<Rightarrow> Session option" where
  "db_get_session d i = find (\<lambda>s. session_id s = i) (sessions (working d))"

text \<open>An attribute assignment on a loaded row: the row of the unit of work is replaced.\<close>

definition db_set_session :: "db \<Rightarrow> Session \<Rightarrow> db" where
  "db_set_session d s' =
     d\<lparr>working := (working d)\<lparr>sessions :=
          map (\<lambda>s. if session_id s = session_id s' then s' else s) (sessions (working d))\<rparr>\<rparr>"

definition db_add_session :: "db \<Rightarrow> Session \<Rightarrow> db" where
  "db_add_session d s = d\<lparr>working := (working d)\<lparr>sessions := sessions (working d) @ [s]\<rparr>\<rparr>"

definition db_add_checkpoint :: "db \<Rightarrow> Checkpoint \<Rightarrow> db" where
  "db_add_checkpoint d c =
     d\<lparr>working := (working d)\<lparr>checkpoints := checkpoints (working d) @ [c]\<rparr>\<rparr>"

definition db_add_lineage :: "db \<Rightarrow> SessionLineage \<Rightarrow> db" where
  "db_add_lineage d l =
     d\<lparr>working := (working d)\<lparr>session_lineage := session_lineage (working d) @ [l]\<rparr>\<rparr>"

definition db_commit :: "db \<Rightarrow> (error + unit) \<times> db" where
  "db_commit d =
     (case faults d of
        [] \<Rightarrow> (Inr (), d\<lparr>persisted := working d\<rparr>)
      | failing # rest \<Rightarrow>
          if failing then (Inl SQLAlchemyError, d\<lparr>working := persisted d, faults := rest\<rparr>)
          else (Inr (), d\<lparr>persisted := working d, faults := rest\<rparr>))"

text \<open>\<open>async_session_maker()\<close>: a new unit of work on the committed store.\<close>

definition new_db_session :: "db \<Rightarrow> db" where
  "new_db_session d = d\<lparr>working := persisted d\<rparr>"

section \<open>services/session\_service.py\<close>

definition DEFAULT_MAX_TOKENS :: int where
  "DEFAULT_MAX_TOKENS = 200000"

text \<open>\<open>max_tokens or settings.DEFAULT_MAX_TOKENS\<close>: an absent or zero limit is the default.\<close>

definition create_session :: "db \<Rightarrow> uuid \<Rightarrow> string \<Rightarrow> int option \<Rightarrow> (error + Session) \<times> db" where
  "create_session d new_id task max_tok =
     (let session = \<lparr>session_id = new_id, task_description = task,
                      max_tokens = (case max_tok of None \<Rightarrow> DEFAULT_MAX_TOKENS
                                    | Some m \<Rightarrow> if m = 0 then DEFAULT_MAX_TOKENS else m),
                      current_tokens = 0, status = ACTIVE, created_at = now d\<rparr>
      in (case db_commit (db_add_session d session) of
            (Inl e, d') \<Rightarrow> (Inl e, d')
          | (Inr _, d') \<Rightarrow> (Inr session, d')))"

definition get_session :: "db \<Rightarrow> uuid \<Rightarrow> Session option" where
  "get_session d i = db_get_session d i"

definition update_tokens :: "db \<Rightarrow> uuid \<Rightarrow> int \<Rightarrow> (error + Session) \<times> db" where
  "update_tokens d i tokens =
     (case db_get_session d i of
        None \<Rightarrow> (Inl (ValueError ''Session not found'' i), d)
      | Some session \<Rightarrow>
          (let session' = session\<lparr>current_tokens := tokens\<rparr>
           in (case db_commit (db_set_session d session') of
                 (Inl e, d') \<Rightarrow> (Inl e, d')
               | (Inr _, d') \<Rightarrow> (Inr session', d'))))"

definition complete_session :: "db \<Rightarrow> uuid \<Rightarrow> (error + Session) \<times> db" where
  "complete_session d i =
     (case db_get_session d i of
        None \<Rightarrow> (Inl (ValueError ''Session not found'' i), d)
      | Some session \<Rightarrow>
          (let session' = session\<lparr>status := COMPLETED\<rparr>
           in (case db_commit (db_set_session d session') of
                 (Inl e, d') \<Rightarrow> (Inl e, d')
               | (Inr _, d') \<Rightarrow> (Inr session', d'))))"

definition terminate_session :: "db \<Rightarrow> uuid \<Rightarrow> (error + Session) \<times> db" where
  "terminate_session d i =
     (case db_get_session d i of
        None \<Rightarrow> (Inl (ValueError ''Session not found'' i), d)
      | Some session \<Rightarrow>
          (let session' = session\<lparr>status := TERMINATED\<rparr>
           in (case db_commit (db_set_session d session') of
                 (Inl e, d') \<Rightarrow> (Inl e, d')
               | (Inr _, d') \<Rightarrow> (Inr session', d'))))"

section \<open>services/checkpoint\_service.py\<close>

definition create_checkpoint :: "db \<Rightarrow> uuid \<Rightarrow> uuid \<Rightarrow> string \<Rightarrow> (error + Checkpoint) \<times> db" where
  "create_checkpoint d new_id i lbl =
     (case db_get_session d i of
        None \<Rightarrow> (Inl (ValueError ''Session not found'' i), d)
      | Some session \<Rightarrow>
          (let memory_ids = map memory_id
                  (filter (\<lambda>m. memory_session_id m = i) (memories (working d)))
           in (case context_usage_percent session of
                 Inl e \<Rightarrow> (Inl e, d)
               | Inr usage \<Rightarrow>
                  (let checkpoint =
                        \<lparr>checkpoint_id = new_id, checkpoint_session_id = i, label = lbl,
                         state = \<lparr>state_task_description = task_description session,
                                  state_current_tokens = current_tokens session,
                                  state_max_tokens = max_tokens session,
                                  state_status = status session\<rparr>,
                         checkpoint_context_usage = usage,
                         memories_snapshot = memory_ids,
                         extra_data = [],
                         checkpoint_created_at = now d\<rparr>
                   in (case db_commit (db_add_checkpoint d checkpoint) of
                         (Inl e, d') \<Rightarrow> (Inl e, d')
                       | (Inr _, d') \<Rightarrow> (Inr checkpoint, d'))))))"

section \<open>services/spawn\_service.py\<close>

record SpawnResult =
  spawn_parent_session_id :: uuid
  spawn_child_session_id :: uuid
  spawn_handoff_prompt :: string
  spawn_checkpoint_id :: uuid

text \<open>
  \<open>execute_spawn\<close>. The language model is an argument: \<open>llm parent reason\<close> is what
  \<open>_generate_handoff_prompt\<close> returns or raises. The three identifiers are those of the
  checkpoint, the child session and the lineage row. The checkpoint and the child
  session are committed by the functions that create them; the last commit stores the
  lineage row and the parent's new status.
\<close>

definition execute_spawn ::
  "(Session \<Rightarrow> string \<Rightarrow> error + string) \<Rightarrow> db \<Rightarrow> uuid \<times> uuid \<times> uuid \<Rightarrow> uuid \<Rightarrow> string
     \<Rightarrow> string option \<Rightarrow> (error + SpawnResult) \<times> db" where
  "execute_spawn llm d new_ids parent_id reason task =
     (case new_ids of (checkpoint_new_id, child_new_id, lineage_new_id) \<Rightarrow>
     (case db_get_session d parent_id of
        None \<Rightarrow> (Inl (ValueError ''Parent session not found'' parent_id), d)
      | Some parent \<Rightarrow>
     (case create_checkpoint d checkpoint_new_id parent_id (''spawn-'' @ take 20 reason) of
        (Inl e, d1) \<Rightarrow> (Inl e, d1)
      | (Inr checkpoint, d1) \<Rightarrow>
     (case llm parent reason of
        Inl e \<Rightarrow> (Inl e, d1)
      | Inr prompt \<Rightarrow>
     (case create_session d1 child_new_id
             (case task of None \<Rightarrow> prompt | Some t \<Rightarrow> if t = [] then prompt else t)
             (Some (max_tokens parent)) of
        (Inl e, d2) \<Rightarrow> (Inl e, d2)
      | (Inr child, d2) \<Rightarrow>
          (let lineage = \<lparr>lineage_id = lineage_new_id, parent_session_id = Some parent_id,
                          child_session_id = session_id child, handoff_reason = reason,
                          handoff_prompt = prompt,
                          lineage_checkpoint_id = Some (checkpoint_id checkpoint),
                          lineage_created_at = now d2\<rparr>;
               d3 = db_add_lineage d2 lineage;
               d4 = db_set_session d3 (parent\<lparr>status := COMPLETED\<rparr>)
           in (case db_commit d4 of
                 (Inl e, d5) \<Rightarrow> (Inl e, d5)
               | (Inr _, d5) \<Rightarrow>
                   (Inr \<lparr>spawn_parent_session_id = parent_id,
                         spawn_child_session_id = session_id child,
                         spawn_handoff_prompt = prompt,
                         spawn_checkpoint_id = checkpoint_id checkpoint\<rparr>, d5))))))))"

section \<open>Python strings\<close>

text \<open>
  Strings are lists of 8-bit code points. \<open>s in t\<close> on strings is the contiguous
  sublist test \<open>sublist s t\<close>. \<open>str.lower\<close> maps the ASCII capitals and the Latin-1
  capitals (0xC0 to 0xDE without the multiplication sign 0xD7) to their small letters,
  which lie 32 higher: bit 5 of the code point is set.
\<close>

definition lower_char :: "char \<Rightarrow> char" where
  "lower_char c =
     (let n = (of_char c :: nat)
      in if (65 \<le> n \<and> n \<le> 90) \<or> (192 \<le> n \<and> n \<le> 222 \<and> n \<noteq> 215)
         then (case c of Char b0 b1 b2 b3 b4 b5 b6 b7 \<Rightarrow> Char b0 b1 b2 b3 b4 True b6 b7)
         else c)"

definition lower :: "string \<Rightarrow> string" where
  "lower s = map lower_char s"

section \<open>services/fold\_service.py\<close>

datatype Urgency = LOW | MEDIUM | HIGH | CRITICAL

text \<open>The ordering low < medium < high < critical of the urgency levels.\<close>

fun urgency_rank :: "Urgency \<Rightarrow> nat" where
  "urgency_rank LOW = 0"
| "urgency_rank MEDIUM = 1"
| "urgency_rank HIGH = 2"
| "urgency_rank CRITICAL = 3"

record ShouldFoldResult =
  r_should_fold :: bool
  r_urgency :: Urgency
  r_reason :: string
  r_recommended_action :: string
  r_context_usage :: real
  r_provider :: string

text \<open>
  The thresholds are the decimal literals of the source. A usage ratio is a double in the
  source and a real here: comparing two doubles written as decimal literals gives what
  comparing the decimals gives, since rounding to the nearest double is monotone and
  the literals of a table round to different doubles.
\<close>

type_synonym thresholds = "(real \<times> Urgency \<times> string \<times> string) list"

definition PROVIDER_THRESHOLDS :: "(string \<times> thresholds) list" where
  "PROVIDER_THRESHOLDS =
    [(''anthropic'',
        [(60 / 100, MEDIUM, ''Consider milestone checkpoint'', ''checkpoint''),
         (75 / 100, HIGH, ''Safety checkpoint recommended'', ''checkpoint''),
         (85 / 100, HIGH, ''Fold/compress REQUIRED'', ''compress''),
         (95 / 100, CRITICAL, ''MUST spawn new agent'', ''spawn'')]),
     (''glm'',
        [(50 / 100, MEDIUM, ''Consider milestone checkpoint (GLM)'', ''checkpoint''),
         (65 / 100, HIGH, ''Safety checkpoint recommended (GLM)'', ''checkpoint''),
         (75 / 100, HIGH, ''Fold/compress REQUIRED (GLM)'', ''compress''),
         (85 / 100, CRITICAL, ''MUST spawn new agent (GLM)'', ''spawn'')]),
     (''openai'',
        [(60 / 100, MEDIUM, ''Consider milestone checkpoint'', ''checkpoint''),
         (75 / 100, HIGH, ''Safety checkpoint recommended'', ''checkpoint''),
         (85 / 100, HIGH, ''Fold/compress REQUIRED'', ''compress''),
         (95 / 100, CRITICAL, ''MUST spawn new agent'', ''spawn'')]),
     (''google'',
        [(70 / 100, MEDIUM, ''Consider milestone checkpoint (Gemini)'', ''checkpoint''),
         (80 / 100, HIGH, ''Safety checkpoint recommended (Gemini)'', ''checkpoint''),
         (90 / 100, HIGH, ''Fold/compress REQUIRED (Gemini)'', ''compress''),
         (97 / 100, CRITICAL, ''MUST spawn new agent (Gemini)'', ''spawn'')])]"

text \<open>
  \<open>detect_active_provider\<close> reads \<open>~/.ccs/config.json\<close>. Its argument here is what
  the file holds: \<open>Some cur\<close> when the file exists and parses to an object whose
  \<open>current\<close> entry is the string \<open>cur\<close>, \<open>None\<close> in every other case (no file, no
  such entry, or an exception on the way), where the source answers \<open>anthropic\<close>.
\<close>

definition detect_active_provider :: "string option \<Rightarrow> string" where
  "detect_active_provider ccs =
     (case ccs of
        None \<Rightarrow> ''anthropic''
      | Some current \<Rightarrow>
          if sublist ''glm'' (lower current) then ''glm''
          else if sublist ''openai'' (lower current) \<or> sublist ''gpt'' (lower current)
            then ''openai''
          else if sublist ''google'' (lower current) \<or> sublist ''gemini'' (lower current)
            then ''google''
          else ''anthropic'')"

definition get_thresholds_for_provider :: "string option \<Rightarrow> string option \<Rightarrow> thresholds" where
  "get_thresholds_for_provider ccs provider =
     (let provider' = (case provider of None \<Rightarrow> detect_active_provider ccs | Some p \<Rightarrow> p)
      in case map_of PROVIDER_THRESHOLDS provider' of
           Some t \<Rightarrow> t
         | None \<Rightarrow> the (map_of PROVIDER_THRESHOLDS ''anthropic''))"

text \<open>
  The loop of \<open>should_fold\<close> over the rows, highest threshold first: the first row whose
  threshold the usage reaches is returned.
\<close>

fun first_reached :: "real \<Rightarrow> thresholds \<Rightarrow> (Urgency \<times> string \<times> string) option" where
  "first_reached usage [] = None"
| "first_reached usage ((threshold, row) # rest) =
     (if usage \<ge> threshold then Some row else first_reached usage rest)"

text \<open>
  \<open>sorted(thresholds.items(), reverse=True)\<close>: the keys of a dictionary are distinct, so
  the descending order is the reverse of the ascending one.
\<close>

definition sorted_reverse :: "thresholds \<Rightarrow> thresholds" where
  "sorted_reverse t = rev (sort_key fst t)"

text \<open>\<open>provider or detect_active_provider()\<close>: an empty provider string counts as absent.\<close>

definition should_fold :: "string option \<Rightarrow> real \<Rightarrow> int \<Rightarrow> string option \<Rightarrow> ShouldFoldResult" where
  "should_fold ccs usage memory_count provider =
     (let detected_provider =
            (case provider of
               None \<Rightarrow> detect_active_provider ccs
             | Some p \<Rightarrow> if p = [] then detect_active_provider ccs else p);
          thresholds = get_thresholds_for_provider ccs (Some detected_provider)
      in case first_reached usage (sorted_reverse thresholds) of
           Some (urgency, reason, action) \<Rightarrow>
             \<lparr>r_should_fold = True, r_urgency = urgency, r_reason = reason,
              r_recommended_action = action, r_context_usage = usage,
              r_provider = detected_provider\<rparr>
         | None \<Rightarrow>
             \<lparr>r_should_fold = False, r_urgency = LOW, r_reason = ''Context usage acceptable'',
              r_recommended_action = ''continue'', r_context_usage = usage,
              r_provider = detected_provider\<rparr>)"

text \<open>The urgency of the row the loop stops at, \<open>LOW\<close> when it runs through.\<close>

fun row_urgency :: "(Urgency \<times> string \<times> string) option \<Rightarrow> Urgency" where
  "row_urgency None = LOW"
| "row_urgency (Some (u, _)) = u"

section \<open>Example stores\<close>

definition demo_session :: Session where
  "demo_session = \<lparr>session_id = 1, task_description = ''demo'', max_tokens = 100,
                    current_tokens = 10, status = COMPLETED, created_at = 0\<rparr>"

definition demo_db :: "bool list \<Rightarrow> db" where
  "demo_db fs =
     \<lparr>persisted = \<lparr>sessions = [demo_session], memories = [], checkpoints = [],
                    session_lineage = []\<rparr>,
      working = \<lparr>sessions = [demo_session], memories = [], checkpoints = [],
                  session_lineage = []\<rparr>,
      faults = fs, now = 7\<rparr>"

definition demo_parent :: Session where
  "demo_parent = \<lparr>session_id = 1, task_description = ''refactor the parser'',
                   max_tokens = 100, current_tokens = 95, status = ACTIVE, created_at = 0\<rparr>"

definition demo_spawn_db :: "bool list \<Rightarrow> db" where
  "demo_spawn_db fs =
     \<lparr>persisted = \<lparr>sessions = [demo_parent], memories = [], checkpoints = [],
                    session_lineage = []\<rparr>,
      working = \<lparr>sessions = [demo_parent], memories = [], checkpoints = [],
                  session_lineage = []\<rparr>,
      faults = fs, now = 7\<rparr>"

definition demo_llm :: "Session \<Rightarrow> string \<Rightarrow> error + string" where
  "demo_llm parent reason = Inr ''Continue the parser refactoring''"

section \<open>More string operations\<close>

text \<open>\<open>str.strip()\<close> removes white space at both ends; these are the white-space code
  points below 256.\<close>

definition is_space :: "char \<Rightarrow> bool" where
  "is_space c =
     (let n = (of_char c :: nat)
      in (9 \<le> n \<and> n \<le> 13) \<or> (28 \<le> n \<and> n \<le> 32) \<or> n = 133 \<or> n = 160)"

definition strip :: "string \<Rightarrow> string" where
  "strip s = rev (dropWhile is_space (rev (dropWhile is_space s)))"

text \<open>\<open>s.split(sep)\<close> for a separator of one character, and for a longer one: the
  separators are found from the left and do not overlap; \<open>skip\<close> counts the characters
  of a separator still to be passed.\<close>

fun split_char :: "char \<Rightarrow> string \<Rightarrow> string list" where
  "split_char sep [] = [[]]"
| "split_char sep (c # cs) =
     (if c = sep then [] # split_char sep cs
      else (case split_char sep cs of
              [] \<Rightarrow> [[c]]
            | part # parts \<Rightarrow> (c # part) # parts))"

fun split_skip :: "string \<Rightarrow> nat \<Rightarrow> string \<Rightarrow> string \<Rightarrow> string list" where
  "split_skip sep skip acc [] = [rev acc]"
| "split_skip sep (Suc skip) acc (c # cs) = split_skip sep skip acc cs"
| "split_skip sep 0 acc (c # cs) =
     (if prefix sep (c # cs) then rev acc # split_skip sep (length sep - 1) [] cs
      else split_skip sep 0 (c # acc) cs)"

definition split :: "string \<Rightarrow> string \<Rightarrow> string list" where
  "split sep s = split_skip sep 0 [] s"

fun join :: "string \<Rightarrow> string list \<Rightarrow> string" where
  "join sep [] = []"
| "join sep [part] = part"
| "join sep (part # next_part # parts) = part @ sep @ join sep (next_part # parts)"

definition newline :: char where
  "newline = CHR 0x0A"

section \<open>JSON values\<close>

text \<open>
  What \<open>json.loads\<close> returns. Numbers are integers: a transcript's token counts are, and a
  JSON number with a fraction or an exponent is outside this model. An object is an
  association list with distinct keys. \<open>json.loads\<close> itself is an argument \<open>loads\<close> of
  the functions that parse: \<open>None\<close> stands for \<open>JSONDecodeError\<close>.
\<close>

datatype json =
    JNull
  | JBool bool
  | JInt int
  | JStr string
  | JArr "json list"
  | JObj "(string \<times> json) list"

fun py_truthy :: "json \<Rightarrow> bool" where
  "py_truthy JNull = False"
| "py_truthy (JBool b) = b"
| "py_truthy (JInt n) = (n \<noteq> 0)"
| "py_truthy (JStr s) = (s \<noteq> [])"
| "py_truthy (JArr xs) = (xs \<noteq> [])"
| "py_truthy (JObj kvs) = (kvs \<noteq> [])"

text \<open>\<open>x.get(key, default)\<close>: only a dictionary has the method.\<close>

fun dict_get :: "json \<Rightarrow> string \<Rightarrow> json \<Rightarrow> error + json" where
  "dict_get (JObj kvs) key dflt =
     Inr (case map_of kvs key of None \<Rightarrow> dflt | Some v \<Rightarrow> v)"
| "dict_get other key dflt = Inl (AttributeError ''get'')"

text \<open>\<open>a + b\<close> on these values: integers and booleans add as integers, strings and lists
  concatenate, every other pair raises \<open>TypeError\<close>.\<close>

fun py_add :: "json \<Rightarrow> json \<Rightarrow> error + json" where
  "py_add (JInt a) (JInt b) = Inr (JInt (a + b))"
| "py_add (JInt a) (JBool b) = Inr (JInt (a + (if b then 1 else 0)))"
| "py_add (JBool a) (JInt b) = Inr (JInt ((if a then 1 else 0) + b))"
| "py_add (JBool a) (JBool b) = Inr (JInt ((if a then 1 else 0) + (if b then 1 else 0)))"
| "py_add (JStr a) (JStr b) = Inr (JStr (a @ b))"
| "py_add (JArr a) (JArr b) = Inr (JArr (a @ b))"
| "py_add a b = Inl TypeError"

section \<open>services/transcript\_service.py: constants and records\<close>

definition TRANSCRIPT_TAIL_SIZE :: int where
  "TRANSCRIPT_TAIL_SIZE = 10240"

definition MAX_CONTEXT_TOKENS :: int where
  "MAX_CONTEXT_TOKENS = 200000"

definition BYTES_PER_TOKEN :: int where
  "BYTES_PER_TOKEN = 6"

definition SYSTEM_OVERHEAD_TOKENS :: int where
  "SYSTEM_OVERHEAD_TOKENS = 2000"

record ClaudeSource =
  source_name :: string
  projects_dir :: string
  color :: string

record ProjectData =
  pd_name :: string
  pd_project_path :: string
  pd_current_tokens :: int
  pd_max_tokens :: int
  pd_context_usage :: real
  pd_last_updated :: nat
  pd_transcript_path :: string
  pd_is_real_data :: bool
  pd_source_name :: string
  pd_source_color :: string

section \<open>services/transcript\_watcher.py: reading the usage\<close>

text \<open>
  The functions of the class \<open>TranscriptWatcher\<close>; a leading underscore of a method's
  name is dropped. The body of the loop of \<open>_extract_usage_from_content\<close> on one line:
  \<open>Inr None\<close> when the loop continues, \<open>Inr (Some total_context)\<close> when it returns, \<open>Inl\<close> when an
  exception other than \<open>JSONDecodeError\<close> and \<open>KeyError\<close> leaves the function.
\<close>

definition usage_of_line :: "(string \<Rightarrow> json option) \<Rightarrow> string \<Rightarrow> error + json option" where
  "usage_of_line loads line =
     (if \<not> sublist ''\"type\":\"assistant\"'' line then Inr None
      else (case loads line of
              None \<Rightarrow> Inr None
            | Some msg \<Rightarrow>
               (case dict_get msg ''type'' JNull of
                  Inl e \<Rightarrow> Inl e
                | Inr t \<Rightarrow>
                   if t \<noteq> JStr ''assistant'' then Inr None
                   else (case dict_get msg ''message'' (JObj []) of
                           Inl e \<Rightarrow> Inl e
                         | Inr message \<Rightarrow>
                            (case dict_get message ''usage'' JNull of
                               Inl e \<Rightarrow> Inl e
                             | Inr usage \<Rightarrow>
                                if \<not> py_truthy usage then Inr None
                                else (case dict_get usage ''input_tokens'' (JInt 0) of
                                        Inl e \<Rightarrow> Inl e
                                      | Inr input \<Rightarrow>
                                         (case dict_get usage ''cache_creation_input_tokens''
                                                 (JInt 0) of
                                            Inl e \<Rightarrow> Inl e
                                          | Inr creation \<Rightarrow>
                                             (case py_add input creation of
                                                Inl e \<Rightarrow> Inl e
                                              | Inr total_context \<Rightarrow> Inr (Some total_context)))))))))"

text \<open>The loop, over the lines from the last to the first.\<close>

fun scan_reversed :: "(string \<Rightarrow> json option) \<Rightarrow> string list \<Rightarrow> error + json option" where
  "scan_reversed loads [] = Inr None"
| "scan_reversed loads (line # rest) =
     (case usage_of_line loads line of
        Inl e \<Rightarrow> Inl e
      | Inr (Some total_context) \<Rightarrow> Inr (Some total_context)
      | Inr None \<Rightarrow> scan_reversed loads rest)"

definition extract_usage_from_content ::
  "(string \<Rightarrow> json option) \<Rightarrow> string \<Rightarrow> error + json option" where
  "extract_usage_from_content loads content =
     scan_reversed loads (rev (split_char newline (strip content)))"

text \<open>
  The file system as the watcher reads it: for a path, the size of the file and the text
  that \<open>get_last_assistant_usage\<close> decodes (the whole file, or its last
  \<open>TRANSCRIPT_TAIL_SIZE\<close> bytes when it is longer); \<open>None\<close> when the file cannot be read.
  Every exception makes \<open>get_last_assistant_usage\<close> return \<open>None\<close>.
\<close>

record transcript_file =
  file_size :: int
  tail_text :: string

record env =
  env_files :: "string \<Rightarrow> transcript_file option"
  env_loads :: "string \<Rightarrow> json option"
  env_clock :: nat

definition get_last_assistant_usage :: "env \<Rightarrow> string \<Rightarrow> json option" where
  "get_last_assistant_usage e transcript_path =
     (case env_files e transcript_path of
        None \<Rightarrow> None
      | Some f \<Rightarrow>
         (case extract_usage_from_content (env_loads e) (tail_text f) of
            Inl err \<Rightarrow> None
          | Inr r \<Rightarrow> r))"

section \<open>Example transcript\<close>

text \<open>A transcript of three lines, and \<open>json.loads\<close> on these lines.\<close>

definition demo_usage_line :: string where
  "demo_usage_line = ''{\"type\":\"assistant\",\"message\":{\"usage\":{\"input_tokens\":1000,\"cache_creation_input_tokens\":500,\"cache_read_input_tokens\":50000}}}''"

definition demo_transcript :: string where
  "demo_transcript = ''{\"type\":\"user\"}'' @ [newline] @ demo_usage_line @ [newline]
      @ ''{\"type\":\"system\"}'' @ [newline]"

definition demo_usage :: "(string \<times> json) list" where
  "demo_usage = [(''input_tokens'', JInt 1000), (''cache_creation_input_tokens'', JInt 500),
                 (''cache_read_input_tokens'', JInt 50000)]"

definition demo_loads :: "string \<Rightarrow> json option" where
  "demo_loads line =
     (if line = demo_usage_line then
        Some (JObj [(''type'', JStr ''assistant''),
                    (''message'', JObj [(''usage'', JObj demo_usage)])])
      else if line = ''{\"type\":\"user\"}'' then Some (JObj [(''type'', JStr ''user'')])
      else if line = ''{\"type\":\"system\"}'' then Some (JObj [(''type'', JStr ''system'')])
      else None)"

section \<open>services/transcript\_watcher.py: projects and sessions\<close>

text \<open>
  The patterns of \<open>decode_project_name\<close> are anchored at the start of the name and made of
  literal text and of \<open>[^-]+\<close>, a longest non-empty run of characters other than the dash
  (each run is followed by a dash in the pattern, so the longest run is the only match).
  \<open>re_match\<close> returns what follows the match; \<open>re_sub_prefix\<close> is
  \<open>re.sub(pattern, "", name)\<close>.
\<close>

datatype tok = Lit string | NotDash

fun re_match :: "tok list \<Rightarrow> string \<Rightarrow> string option" where
  "re_match [] s = Some s"
| "re_match (Lit l # ts) s =
     (if prefix l s then re_match ts (drop (length l) s) else None)"
| "re_match (NotDash # ts) s =
     (if takeWhile (\<lambda>c. c \<noteq> CHR ''-'') s = [] then None
      else re_match ts (dropWhile (\<lambda>c. c \<noteq> CHR ''-'') s))"

definition re_sub_prefix :: "tok list \<Rightarrow> string \<Rightarrow> string" where
  "re_sub_prefix pattern name = (case re_match pattern name of None \<Rightarrow> name | Some rest \<Rightarrow> rest)"

definition patterns :: "tok list list" where
  "patterns =
    [[Lit ''-home-'', NotDash, Lit ''-Documents-lab-'', NotDash, Lit ''-''],
     [Lit ''-home-'', NotDash, Lit ''-Documents-lab-''],
     [Lit ''-home-'', NotDash, Lit ''-Documents-''],
     [Lit ''-home-'', NotDash, Lit ''-''],
     [Lit ''-home''],
     [Lit ''-'']]"

definition decode_project_name :: "string \<Rightarrow> string" where
  "decode_project_name project_dir =
     (let name = fold re_sub_prefix patterns project_dir
      in if length name > 40
         then (let parts = split_char CHR ''-'' name
               in join ''-'' (drop (length parts - 3) parts))
         else name)"

text \<open>
  The watcher's state: the sources and the dictionary \<open>cached_projects\<close>, an association
  list in insertion order. The other attributes (event queue, throttling table, tasks)
  are not read by the functions modelled here.
\<close>

record watcher =
  sources :: "ClaudeSource list"
  cached_projects :: "(string \<times> ProjectData) list"

definition dict_set :: "('k \<times> 'v) list \<Rightarrow> 'k \<Rightarrow> 'v \<Rightarrow> ('k \<times> 'v) list" where
  "dict_set kvs k v =
     (if k \<in> fst ` set kvs then map (\<lambda>(k', v'). if k' = k then (k', v) else (k', v')) kvs
      else kvs @ [(k, v)])"

definition dict_pop :: "('k \<times> 'v) list \<Rightarrow> 'k \<Rightarrow> ('k \<times> 'v) list" where
  "dict_pop kvs k = filter (\<lambda>(k', v'). k' \<noteq> k) kvs"

text \<open>\<open>_extract_project_info\<close>: \<open>None\<close> is the pair \<open>(None, None)\<close> of the source.\<close>

definition extract_project_info :: "watcher \<Rightarrow> string \<Rightarrow> (string \<times> string) option" where
  "extract_project_info w transcript_path =
     (case split ''/projects/'' transcript_path of
        first_part # second_part # others \<Rightarrow>
          (case (case find (\<lambda>source. sublist (projects_dir source) transcript_path) (sources w) of
                   Some source \<Rightarrow> Some (source_name source)
                 | None \<Rightarrow>
                    (case find (\<lambda>part. prefix ''.claude'' part \<or> part = ''.opencode'')
                            (split_char CHR ''/'' transcript_path) of
                       Some part \<Rightarrow> Some (dropWhile (\<lambda>c. c = CHR ''.'') part)
                     | None \<Rightarrow> None)) of
             None \<Rightarrow> None
           | Some found_source \<Rightarrow>
              (case split_char CHR ''/'' second_part of
                 project_dir # rest \<Rightarrow> Some (found_source, decode_project_name project_dir)
               | [] \<Rightarrow> None))
      | parts \<Rightarrow> None)"

text \<open>
  The query of both handlers: the sessions with the given task description, ordered by
  \<open>created_at\<close> descending, limited to one row. Among rows of the same age the first of
  the table is taken.
\<close>

definition latest_session :: "db \<Rightarrow> string \<Rightarrow> Session option" where
  "latest_session d description =
     (case filter (\<lambda>s. task_description s = description) (sessions (working d)) of
        [] \<Rightarrow> None
      | s # others \<Rightarrow>
          Some (fold (\<lambda>candidate best.
                        if created_at candidate > created_at best then candidate else best)
                  others s))"

text \<open>\<open>min(real_tokens, MAX_CONTEXT_TOKENS)\<close> on the value the extraction returned: a
  comparison of an integer with a string, a list, a dictionary or \<open>None\<close> raises.\<close>

fun py_min_int :: "json \<Rightarrow> int \<Rightarrow> error + int" where
  "py_min_int (JInt n) m = Inr (min n m)"
| "py_min_int (JBool b) m = Inr (min (if b then 1 else 0) m)"
| "py_min_int other m = Inl TypeError"

text \<open>
  \<open>_update_project_tokens\<close>. Any exception ends the function with the cache unchanged.
  The broadcast at its end sends \<open>get_status\<close> and changes nothing here.
\<close>

definition update_project_tokens ::
  "env \<Rightarrow> db \<Rightarrow> uuid \<Rightarrow> watcher \<Rightarrow> string \<Rightarrow> string \<Rightarrow> string \<Rightarrow> watcher \<times> db" where
  "update_project_tokens e d new_id w src project_name transcript_path =
     (let real_tokens = get_last_assistant_usage e transcript_path
      in (case (case real_tokens of
                  None \<Rightarrow>
                    (case env_files e transcript_path of
                       None \<Rightarrow> Inl OSError
                     | Some f \<Rightarrow>
                         Inr (min (file_size f div BYTES_PER_TOKEN + SYSTEM_OVERHEAD_TOKENS)
                                  MAX_CONTEXT_TOKENS))
                | Some v \<Rightarrow> py_min_int v MAX_CONTEXT_TOKENS) of
            Inl err \<Rightarrow> (w, d)
          | Inr tokens \<Rightarrow>
             (let session_key = src @ '':'' @ project_name;
                  d0 = new_db_session d
              in (case (case latest_session d0 (''Auto-detected: '' @ session_key) of
                          Some session \<Rightarrow>
                            if current_tokens session \<noteq> tokens
                            then db_commit (db_set_session d0 (session\<lparr>current_tokens := tokens\<rparr>))
                            else (Inr (), d0)
                        | None \<Rightarrow>
                            db_commit (db_add_session d0
                              \<lparr>session_id = new_id,
                               task_description = ''Auto-detected: '' @ session_key,
                               max_tokens = MAX_CONTEXT_TOKENS, current_tokens = tokens,
                               status = ACTIVE, created_at = now d0\<rparr>)) of
                    (Inl err, d1) \<Rightarrow> (w, new_db_session d1)
                  | (Inr ok, d1) \<Rightarrow>
                     (case py_truediv tokens MAX_CONTEXT_TOKENS of
                        Inl err \<Rightarrow> (w, new_db_session d1)
                      | Inr ratio \<Rightarrow>
                          (w\<lparr>cached_projects := dict_set (cached_projects w) session_key
                               \<lparr>pd_name = project_name, pd_project_path = project_name,
                                pd_current_tokens = tokens, pd_max_tokens = MAX_CONTEXT_TOKENS,
                                pd_context_usage = min (99 / 100) ratio,
                                pd_last_updated = env_clock e,
                                pd_transcript_path = transcript_path,
                                pd_is_real_data = (real_tokens \<noteq> None),
                                pd_source_name = src, pd_source_color = []\<rparr>\<rparr>,
                           new_db_session d1))))))"

text \<open>
  The members of the enumeration \<open>SessionStatus\<close>: reading any other attribute of the
  class raises \<open>AttributeError\<close>.
\<close>

definition SessionStatus_member :: "string \<Rightarrow> error + SessionStatus" where
  "SessionStatus_member member =
     (if member = ''ACTIVE'' then Inr ACTIVE
      else if member = ''COMPLETED'' then Inr COMPLETED
      else if member = ''TERMINATED'' then Inr TERMINATED
      else Inl (AttributeError member))"

text \<open>
  \<open>_handle_deleted_transcript\<close>. The assignment \<open>session.status = SessionStatus.INACTIVE\<close>
  reads the member first; an exception leaves the function before the commit and before
  the cache entry is removed, and the event loop logs it.
\<close>

definition handle_deleted_transcript ::
  "watcher \<Rightarrow> db \<Rightarrow> string \<Rightarrow> (error + unit) \<times> watcher \<times> db" where
  "handle_deleted_transcript w d path =
     (case extract_project_info w path of
        None \<Rightarrow> (Inr (), w, d)
      | Some (src, project_name) \<Rightarrow>
          if src = [] \<or> project_name = [] then (Inr (), w, d)
          else
            (let session_key = src @ '':'' @ project_name;
                 d0 = new_db_session d
             in (case (case latest_session d0 (''Auto-detected: '' @ session_key) of
                         Some session \<Rightarrow>
                           (case SessionStatus_member ''INACTIVE'' of
                              Inl err \<Rightarrow> (Inl err, d0)
                            | Inr inactive \<Rightarrow>
                                db_commit (db_set_session d0 (session\<lparr>status := inactive\<rparr>)))
                       | None \<Rightarrow> (Inr (), d0)) of
                   (Inl err, d1) \<Rightarrow> (Inl err, w, new_db_session d1)
                 | (Inr ok, d1) \<Rightarrow>
                     (Inr (), w\<lparr>cached_projects := dict_pop (cached_projects w) session_key\<rparr>,
                      new_db_session d1))))"

text \<open>
  \<open>get_status\<close>. The name of a project joins source and project with an em dash, here
  its three bytes in UTF-8. \<open>round\<close> rounds a half to the even neighbour; the product
  \<open>context_usage * 100\<close> is exact here.
\<close>

definition em_dash :: string where
  "em_dash = [CHR 0xE2, CHR 0x80, CHR 0x94]"

definition py_round :: "real \<Rightarrow> int" where
  "py_round x =
     (if x - of_int \<lfloor>x\<rfloor> < 1 / 2 then \<lfloor>x\<rfloor>
      else if x - of_int \<lfloor>x\<rfloor> > 1 / 2 then \<lfloor>x\<rfloor> + 1
      else if even \<lfloor>x\<rfloor> then \<lfloor>x\<rfloor> else \<lfloor>x\<rfloor> + 1)"

record project_status =
  display_name :: string
  projectPath :: string
  currentTokens :: int
  maxTokens :: int
  contextUsage :: real
  pct :: int
  lastUpdated :: nat
  isRealData :: bool
  source_info :: "string \<times> string"
  transcriptPath :: string

record dashboard_status =
  connected :: bool
  projectCount :: nat
  projects :: "project_status list"
  status_sources :: "(string \<times> string) list"
  totalTokens :: int
  timestamp :: nat

definition project_entry :: "ProjectData \<Rightarrow> project_status" where
  "project_entry p =
     \<lparr>display_name = pd_source_name p @ em_dash @ pd_name p,
      projectPath = pd_project_path p,
      currentTokens = pd_current_tokens p,
      maxTokens = pd_max_tokens p,
      contextUsage = pd_context_usage p,
      pct = py_round (pd_context_usage p * 100),
      lastUpdated = pd_last_updated p,
      isRealData = pd_is_real_data p,
      source_info = (pd_source_name p, pd_source_color p),
      transcriptPath = pd_transcript_path p\<rparr>"

text \<open>The list is sorted by \<open>currentTokens\<close> with \<open>reverse=True\<close>: a stable descending sort.\<close>

definition get_status :: "watcher \<Rightarrow> nat \<Rightarrow> dashboard_status" where
  "get_status w time =
     (let projects_list = sort_key (\<lambda>p. - currentTokens p)
                            (map (\<lambda>(key, p). project_entry p) (cached_projects w))
      in \<lparr>connected = True,
          projectCount = length projects_list,
          projects = projects_list,
          status_sources = map (\<lambda>s. (source_name s, color s)) (sources w),
          totalTokens = sum_list (map currentTokens projects_list),
          timestamp = time\<rparr>)"

text \<open>
  The states of a watcher: it starts with an empty cache, and the cache is written by
  \<open>_update_project_tokens\<close> and \<open>_handle_deleted_transcript\<close> only, which the event
  handler and the initial synchronisation call with whatever the file system, the
  database and the clock hold at that moment.
\<close>

inductive reachable :: "watcher \<Rightarrow> bool" where
  started: "reachable \<lparr>sources = srcs, cached_projects = []\<rparr>"
| updated: "reachable w \<Longrightarrow>
            update_project_tokens e d new_id w src project_name transcript_path = (w', d')
            \<Longrightarrow> reachable w'"
| deleted: "reachable w \<Longrightarrow> handle_deleted_transcript w d path = (outcome, w', d')
            \<Longrightarrow> reachable w'"

section \<open>Example watcher\<close>

definition demo_path :: string where
  "demo_path = ''/home/u/.claude/projects/-home-u-ralph/A.jsonl''"

definition demo_watcher :: watcher where
  "demo_watcher =
     \<lparr>sources = [\<lparr>source_name = ''claude'', projects_dir = ''/home/u/.claude/projects'',
                   color = ''#3B82F6''\<rparr>],
      cached_projects = []\<rparr>"

definition demo_env :: env where
  "demo_env =
     \<lparr>env_files = (\<lambda>p. if p = demo_path then Some \<lparr>file_size = 6000000, tail_text = []\<rparr>
                         else None),
      env_loads = demo_loads, env_clock = 3\<rparr>"

definition demo_empty_db :: db where
  "demo_empty_db =
     \<lparr>persisted = \<lparr>sessions = [], memories = [], checkpoints = [], session_lineage = []\<rparr>,
      working = \<lparr>sessions = [], memories = [], checkpoints = [], session_lineage = []\<rparr>,
      faults = [], now = 7\<rparr>"


definition demo_watcher_active :: watcher where
  "demo_watcher_active =
     demo_watcher\<lparr>cached_projects :=
       [(''claude:ralph'',
         \<lparr>pd_name = ''ralph'', pd_project_path = ''ralph'',
          pd_current_tokens = 200000, pd_max_tokens = 200000,
          pd_context_usage = 99 / 100, pd_last_updated = 3,
          pd_transcript_path = demo_path,
          pd_is_real_data = False, pd_source_name = ''claude'',
          pd_source_color = []\<rparr>)]\<rparr>"

definition demo_db_active :: db where
  "demo_db_active =
     \<lparr>persisted = \<lparr>sessions = [\<lparr>session_id = 5,
                      task_description = ''Auto-detected: claude:ralph'',
                      max_tokens = 200000, current_tokens = 200000, status = ACTIVE,
                      created_at = 7\<rparr>],
                    memories = [], checkpoints = [], session_lineage = []\<rparr>,
      working = \<lparr>sessions = [\<lparr>session_id = 5,
                      task_description = ''Auto-detected: claude:ralph'',
                      max_tokens = 200000, current_tokens = 200000, status = ACTIVE,
                      created_at = 7\<rparr>],
                    memories = [], checkpoints = [], session_lineage = []\<rparr>,
      faults = [], now = 7\<rparr>"

section \<open>services/memory\_service.py\<close>

text \<open>\<open>s.split()\<close> without a separator: the words between runs of white space.\<close>

fun words_from :: "string \<Rightarrow> string \<Rightarrow> string list" where
  "words_from current [] = (if current = [] then [] else [rev current])"
| "words_from current (c # cs) =
     (if is_space c
      then (if current = [] then words_from [] cs else rev current # words_from [] cs)
      else words_from (c # current) cs)"

definition split_whitespace :: "string \<Rightarrow> string list" where
  "split_whitespace s = words_from [] s"

text \<open>
  The engine's \<open>ILIKE\<close> (PostgreSQL): \<open>%\<close> matches any text, \<open>_\<close> one character, a
  backslash takes the next character literally, and letters match without regard to
  case. A pattern that ends in a lone backslash is an error in the engine; the patterns
  built here end in \<open>%\<close>.
\<close>

fun like :: "string \<Rightarrow> string \<Rightarrow> bool" where
  "like [] text = (text = [])"
| "like (p # ps) text =
     (if p = CHR ''%'' then
        (like ps text \<or> (case text of [] \<Rightarrow> False | c # cs \<Rightarrow> like (p # ps) cs))
      else if p = CHR ''_'' then
        (case text of [] \<Rightarrow> False | c # cs \<Rightarrow> like ps cs)
      else if p = CHR 0x5C then
        (case ps of
           [] \<Rightarrow> False
         | q # qs \<Rightarrow> (case text of [] \<Rightarrow> False | c # cs \<Rightarrow> c = q \<and> like qs cs))
      else (case text of [] \<Rightarrow> False | c # cs \<Rightarrow> c = p \<and> like ps cs))"

definition ilike :: "string \<Rightarrow> string \<Rightarrow> bool" where
  "ilike text pattern = like (lower pattern) (lower text)"

text \<open>
  The enumerated type \<open>memory_priority\<close> is created with the values high, normal, low in
  this order, which is the order the engine sorts them in.
\<close>

fun priority_position :: "MemoryPriority \<Rightarrow> nat" where
  "priority_position PRIORITY_HIGH = 0"
| "priority_position PRIORITY_NORMAL = 1"
| "priority_position PRIORITY_LOW = 2"

fun priority_value :: "MemoryPriority \<Rightarrow> string" where
  "priority_value PRIORITY_HIGH = ''high''"
| "priority_value PRIORITY_NORMAL = ''normal''"
| "priority_value PRIORITY_LOW = ''low''"

fun category_value :: "MemoryCategory \<Rightarrow> string" where
  "category_value DECISION = ''decision''"
| "category_value ACTION = ''action''"
| "category_value ERROR = ''error''"
| "category_value PROGRESS = ''progress''"
| "category_value CONTEXT = ''context''"
| "category_value OTHER = ''other''"

record MemoryIndexItem =
  item_id :: uuid
  summary :: string
  item_category :: string
  item_priority :: string
  score :: real

text \<open>
  The query of \<open>search_index\<close>: the memories of the session whose content matches one of
  the patterns \<open>%keyword%\<close>, ordered by priority descending, then by \<open>created_at\<close>
  descending (rows equal in both keep the order of the table), limited to \<open>top_k\<close> rows. A
  negative limit is an error of the engine.
\<close>

definition select_memories :: "db \<Rightarrow> uuid \<Rightarrow> string list \<Rightarrow> int \<Rightarrow> error + Memory list" where
  "select_memories d sid keywords top_k =
     (if top_k < 0 then Inl SQLAlchemyError
      else Inr (take (nat top_k)
             (sort_key (\<lambda>m. - int (priority_position (memory_priority m)))
               (sort_key (\<lambda>m. - int (memory_created_at m))
                 (filter (\<lambda>m. memory_session_id m = sid
                              \<and> list_ex (\<lambda>kw. ilike (memory_content m) (''%'' @ kw @ ''%''))
                                   keywords)
                    (memories (working d)))))))"

text \<open>\<open>calc_score\<close>, the local function of \<open>search_index\<close>: \<open>sum(1 for kw in keywords if kw
  in content_lower)\<close> over the list of keywords, divided by its length.\<close>

definition calc_score :: "string list \<Rightarrow> Memory \<Rightarrow> real" where
  "calc_score keywords memory =
     (let content_lower = lower (memory_content memory);
          matches = sum_list (map (\<lambda>kw. if sublist kw content_lower then 1 else 0) keywords)
      in if keywords \<noteq> [] then real_of_int matches / real (length keywords) else 0)"

definition index_item :: "Memory \<Rightarrow> real \<Rightarrow> MemoryIndexItem" where
  "index_item m s =
     \<lparr>item_id = memory_id m,
      summary = take 50 (memory_content m)
                @ (if length (memory_content m) > 50 then ''...'' else []),
      item_category = category_value (memory_category m),
      item_priority = priority_value (memory_priority m),
      score = s\<rparr>"

definition search_index :: "db \<Rightarrow> uuid \<Rightarrow> string \<Rightarrow> int \<Rightarrow> error + MemoryIndexItem list" where
  "search_index d sid query top_k =
     (let keywords = split_whitespace (lower query)
      in if keywords = [] then Inr []
         else (case select_memories d sid keywords top_k of
                 Inl e \<Rightarrow> Inl e
               | Inr rows \<Rightarrow> Inr (map (\<lambda>m. index_item m (calc_score keywords m)) rows)))"

text \<open>
  \<open>hybrid_search\<close>. The vector side (embedding provider and vector search) is an argument:
  \<open>vector_ids\<close> are the identifiers \<open>vector_search\<close> returned, best first, and the empty
  list when there is no provider or the search raised. The order in which Python
  iterates over the set \<open>all_ids\<close> is an argument too: the set is listed by increasing
  \<open>set_order\<close>. A dictionary built from a list keeps the last value of a repeated key.
\<close>

definition ranks :: "uuid list \<Rightarrow> uuid \<Rightarrow> nat option" where
  "ranks ids = map_of (rev (zip ids [1 ..< Suc (length ids)]))"

definition combined_score :: "real \<Rightarrow> real \<Rightarrow> uuid list \<Rightarrow> uuid list \<Rightarrow> uuid \<Rightarrow> real" where
  "combined_score keyword_weight vector_weight keyword_ids vector_ids memory =
     (let k = 60;
          after_keyword = (case ranks keyword_ids memory of
                             Some rank \<Rightarrow> 0 + keyword_weight * (1 / (k + real rank))
                           | None \<Rightarrow> 0)
      in (case ranks vector_ids memory of
            Some rank \<Rightarrow> after_keyword + vector_weight * (1 / (k + real rank))
          | None \<Rightarrow> after_keyword))"

definition hybrid_search ::
  "(uuid \<Rightarrow> nat) \<Rightarrow> uuid list \<Rightarrow> db \<Rightarrow> uuid \<Rightarrow> string \<Rightarrow> int \<Rightarrow> real \<Rightarrow> real
     \<Rightarrow> error + MemoryIndexItem list" where
  "hybrid_search set_order vector_ids d sid query top_k keyword_weight vector_weight =
     (case search_index d sid query (top_k * 2) of
        Inl e \<Rightarrow> Inl e
      | Inr keyword_results \<Rightarrow>
         (let keyword_ids = map item_id keyword_results;
              all_ids = sort_key set_order (remdups (keyword_ids @ vector_ids));
              combined = combined_score keyword_weight vector_weight keyword_ids vector_ids;
              sorted_ids = take (nat top_k) (sort_key (\<lambda>x. - combined x) all_ids);
              keyword_lookup = map_of (rev (map (\<lambda>r. (item_id r, r)) keyword_results))
          in Inr (List.map_filter
                    (\<lambda>memory.
                       case keyword_lookup memory of
                         Some item \<Rightarrow> Some (item\<lparr>score := combined memory\<rparr>)
                       | None \<Rightarrow>
                          (case find (\<lambda>m. memory_id m = memory) (memories (working d)) of
                             Some m \<Rightarrow> Some (index_item m (combined memory))
                           | None \<Rightarrow> None))
                    sorted_ids)))"

text \<open>Whether the first identifier stands before the second in a list.\<close>

definition ranked_above :: "'a \<Rightarrow> 'a \<Rightarrow> 'a list \<Rightarrow> bool" where
  "ranked_above a b xs = (a \<in> set (takeWhile (\<lambda>x. x \<noteq> b) xs))"

text \<open>
  The score as the specification words it: the number of distinct query tokens that occur
  in the content, divided by the number of distinct query tokens.
\<close>

definition spec_score :: "string \<Rightarrow> string \<Rightarrow> real" where
  "spec_score query text =
     (let tokens = remdups (split_whitespace (lower query))
      in real (length (filter (\<lambda>t. sublist t (lower text)) tokens)) / real (length tokens))"

section \<open>Example memories\<close>

definition demo_memories :: "Memory list" where
  "demo_memories =
     [\<lparr>memory_id = 21, memory_session_id = 1, memory_content = ''use jwt for auth'',
       memory_category = DECISION, memory_priority = PRIORITY_NORMAL, memory_created_at = 1\<rparr>,
      \<lparr>memory_id = 22, memory_session_id = 1, memory_content = ''JWT tokens'',
       memory_category = CONTEXT, memory_priority = PRIORITY_NORMAL, memory_created_at = 2\<rparr>,
      \<lparr>memory_id = 23, memory_session_id = 1, memory_content = ''postgres schema'',
       memory_category = OTHER, memory_priority = PRIORITY_NORMAL, memory_created_at = 3\<rparr>]"

definition demo_memory_db :: db where
  "demo_memory_db =
     \<lparr>persisted = \<lparr>sessions = [demo_parent], memories = demo_memories, checkpoints = [],
                    session_lineage = []\<rparr>,
      working = \<lparr>sessions = [demo_parent], memories = demo_memories, checkpoints = [],
                  session_lineage = []\<rparr>,
      faults = [], now = 7\<rparr>"

text \<open>An order in which the set of identifiers is listed: larger identifiers first.\<close>

definition demo_set_order :: "uuid \<Rightarrow> nat" where
  "demo_set_order x = 100 - x"

section \<open>Properties\<close>

text \<open>
  C9: reading \<open>context_usage\<close> never raises: with \<open>max_tokens = 0\<close> it returns 0.0 and
  otherwise the quotient \<open>current_tokens / max_tokens\<close>.
\<close>

theorem context_usage_total:
  "context_usage s =
     Inr (if max_tokens s = 0 then 0
          else real_of_int (current_tokens s) / real_of_int (max_tokens s))"
  by (simp add: context_usage_def py_truediv_def)

subsection \<open>The fold decision\<close>

lemma sorted_reverse_rows:
  "a < b \<Longrightarrow> b < c \<Longrightarrow> c < d \<Longrightarrow>
   sorted_reverse [(a, ra), (b, rb), (c, rc), (d, rd)] = [(d, rd), (c, rc), (b, rb), (a, ra)]"
  by (simp add: sorted_reverse_def)

lemma thresholds_in_table:
  "get_thresholds_for_provider ccs (Some p) \<in> snd ` set PROVIDER_THRESHOLDS"
  unfolding get_thresholds_for_provider_def PROVIDER_THRESHOLDS_def
  by (simp del: list.inject)

lemma should_fold_urgency:
  "r_urgency (should_fold ccs usage m provider) =
     row_urgency (first_reached usage (sorted_reverse (get_thresholds_for_provider ccs
       (Some (case provider of None \<Rightarrow> detect_active_provider ccs
             | Some p \<Rightarrow> if p = [] then detect_active_provider ccs else p)))))"
  by (simp add: should_fold_def Let_def split: option.splits)

lemma rows_monotone:
  assumes "t \<in> snd ` set PROVIDER_THRESHOLDS" and "u1 \<le> u2"
  shows "urgency_rank (row_urgency (first_reached u1 (sorted_reverse t)))
       \<le> urgency_rank (row_urgency (first_reached u2 (sorted_reverse t)))"
proof -
  from assms(1) consider
      "t = the (map_of PROVIDER_THRESHOLDS ''anthropic'')"
    | "t = the (map_of PROVIDER_THRESHOLDS ''glm'')"
    | "t = the (map_of PROVIDER_THRESHOLDS ''google'')"
    unfolding PROVIDER_THRESHOLDS_def by (auto simp del: list.inject)
  then show ?thesis
  proof cases
    case 1
    with assms(2) show ?thesis by (simp add: PROVIDER_THRESHOLDS_def sorted_reverse_rows)
  next
    case 2
    with assms(2) show ?thesis by (simp add: PROVIDER_THRESHOLDS_def sorted_reverse_rows)
  next
    case 3
    with assms(2) show ?thesis by (simp add: PROVIDER_THRESHOLDS_def sorted_reverse_rows)
  qed
qed

text \<open>
  C2: with provider \<open>anthropic\<close>, a usage of 0.59 gives no fold, urgency low and action
  continue; 0.60 gives a fold, urgency medium and action checkpoint; 0.95 gives urgency
  critical and action spawn. For every usage the row returned is the one with the
  highest threshold that the usage reaches (\<open>usage \<ge> threshold\<close>).
\<close>

theorem should_fold_anthropic_boundaries:
  "should_fold ccs (59 / 100) n (Some ''anthropic'') =
     \<lparr>r_should_fold = False, r_urgency = LOW, r_reason = ''Context usage acceptable'',
      r_recommended_action = ''continue'', r_context_usage = 59 / 100,
      r_provider = ''anthropic''\<rparr>
   \<and> should_fold ccs (60 / 100) n (Some ''anthropic'') =
     \<lparr>r_should_fold = True, r_urgency = MEDIUM, r_reason = ''Consider milestone checkpoint'',
      r_recommended_action = ''checkpoint'', r_context_usage = 60 / 100,
      r_provider = ''anthropic''\<rparr>
   \<and> should_fold ccs (95 / 100) n (Some ''anthropic'') =
     \<lparr>r_should_fold = True, r_urgency = CRITICAL, r_reason = ''MUST spawn new agent'',
      r_recommended_action = ''spawn'', r_context_usage = 95 / 100,
      r_provider = ''anthropic''\<rparr>
   \<and> r_should_fold (should_fold ccs u n (Some ''anthropic'')) = (u \<ge> 60 / 100)
   \<and> r_urgency (should_fold ccs u n (Some ''anthropic'')) =
       (if u \<ge> 95 / 100 then CRITICAL else if u \<ge> 85 / 100 then HIGH
        else if u \<ge> 75 / 100 then HIGH else if u \<ge> 60 / 100 then MEDIUM else LOW)
   \<and> r_recommended_action (should_fold ccs u n (Some ''anthropic'')) =
       (if u \<ge> 95 / 100 then ''spawn'' else if u \<ge> 85 / 100 then ''compress''
        else if u \<ge> 75 / 100 then ''checkpoint'' else if u \<ge> 60 / 100 then ''checkpoint''
        else ''continue'')"
  by (simp add: should_fold_def get_thresholds_for_provider_def PROVIDER_THRESHOLDS_def
      sorted_reverse_rows)

text \<open>
  C6: for a fixed provider (given, or detected from a fixed configuration), a larger usage
  never gives a lower urgency, in the ordering low < medium < high < critical. It holds
  for every pair of usages, in particular in the interval from 0 to 1.
\<close>

theorem should_fold_urgency_monotone:
  assumes "u1 \<le> u2"
  shows "urgency_rank (r_urgency (should_fold ccs u1 m1 provider))
       \<le> urgency_rank (r_urgency (should_fold ccs u2 m2 provider))"
  unfolding should_fold_urgency
  by (rule rows_monotone[OF thresholds_in_table assms])

theorem should_fold_urgency_monotone_witness:
  "(60 / 100 :: real) \<le> 95 / 100 \<and>
   urgency_rank (r_urgency (should_fold None (60 / 100) 0 (Some ''glm'')))
     \<le> urgency_rank (r_urgency (should_fold None (95 / 100) 0 (Some ''glm''))) \<and>
   r_urgency (should_fold None (60 / 100) 0 (Some ''glm'')) = MEDIUM \<and>
   r_urgency (should_fold None (95 / 100) 0 (Some ''glm'')) = CRITICAL"
  using should_fold_urgency_monotone[of "60 / 100" "95 / 100" None 0 "Some ''glm''" 0]
  by (simp add: should_fold_def get_thresholds_for_provider_def PROVIDER_THRESHOLDS_def
      sorted_reverse_rows)

subsection \<open>The database session\<close>

lemma find_map_replace:
  "find (\<lambda>s. session_id s = i) xs = Some s \<Longrightarrow> session_id s' = i \<Longrightarrow>
   find (\<lambda>s. session_id s = i) (map (\<lambda>s. if session_id s = session_id s' then s' else s) xs)
     = Some s'"
  by (induction xs) (auto split: if_splits)

lemma db_get_after_set:
  "db_get_session d i = Some s \<Longrightarrow> session_id s' = i \<Longrightarrow>
   db_get_session (db_set_session d s') i = Some s'"
  using find_map_replace[of i "sessions (working d)" s s']
  by (simp add: db_get_session_def db_set_session_def)

lemma db_get_session_id: "db_get_session d i = Some s \<Longrightarrow> session_id s = i"
  by (auto simp: db_get_session_def find_Some_iff)

lemma commit_ok:
  "faults d = False # rest \<Longrightarrow>
   db_commit d = (Inr (), d\<lparr>persisted := working d, faults := rest\<rparr>)"
  by (simp add: db_commit_def)

lemma commit_fail:
  "faults d = True # rest \<Longrightarrow>
   db_commit d = (Inl SQLAlchemyError, d\<lparr>working := persisted d, faults := rest\<rparr>)"
  by (simp add: db_commit_def)

lemma context_usage_percent_eq:
  "context_usage_percent s =
     Inr (py_int ((if max_tokens s = 0 then 0
                   else real_of_int (current_tokens s) / real_of_int (max_tokens s)) * 100))"
  by (simp add: context_usage_percent_def context_usage_def py_truediv_def)

subsection \<open>Token updates\<close>

text \<open>
  C1, as stated, fails: a session that is completed and has \<open>max_tokens = 100\<close> is
  updated to 150 tokens; the update is returned and committed, not rejected.
\<close>

theorem update_tokens_counterexample:
  "db_get_session (demo_db []) 1 = Some demo_session
   \<and> 150 > max_tokens demo_session \<and> status demo_session = COMPLETED
   \<and> fst (update_tokens (demo_db []) 1 150) = Inr (demo_session\<lparr>current_tokens := 150\<rparr>)
   \<and> map current_tokens (sessions (persisted (snd (update_tokens (demo_db []) 1 150)))) = [150]
   \<and> map current_tokens (sessions (persisted (demo_db []))) = [10]"
  by (simp add: update_tokens_def db_get_session_def db_set_session_def db_commit_def
      demo_db_def demo_session_def Let_def)

text \<open>
  C1, amended: \<open>update_tokens\<close> raises the not-found error when the session is absent.
  When the session exists, it sets \<open>current_tokens\<close> to the given value whatever
  \<open>max_tokens\<close> and the status are: if the commit succeeds the updated session is
  returned and stored, and if the engine fails the commit the error is raised and the
  committed store is unchanged.
\<close>

theorem update_tokens_unconditional:
  "(db_get_session d i = None \<longrightarrow>
      update_tokens d i tokens = (Inl (ValueError ''Session not found'' i), d))
   \<and> (\<forall>s. db_get_session d i = Some s \<and> \<not> (faults d \<noteq> [] \<and> hd (faults d)) \<longrightarrow>
        fst (update_tokens d i tokens) = Inr (s\<lparr>current_tokens := tokens\<rparr>)
        \<and> persisted (snd (update_tokens d i tokens)) = working (snd (update_tokens d i tokens))
        \<and> db_get_session (snd (update_tokens d i tokens)) i
            = Some (s\<lparr>current_tokens := tokens\<rparr>))
   \<and> (\<forall>s. db_get_session d i = Some s \<and> faults d \<noteq> [] \<and> hd (faults d) \<longrightarrow>
        fst (update_tokens d i tokens) = Inl SQLAlchemyError
        \<and> persisted (snd (update_tokens d i tokens)) = persisted d)"
proof (intro conjI allI impI)
  assume "db_get_session d i = None"
  then show "update_tokens d i tokens = (Inl (ValueError ''Session not found'' i), d)"
    by (simp add: update_tokens_def)
next
  fix s assume a: "db_get_session d i = Some s \<and> \<not> (faults d \<noteq> [] \<and> hd (faults d))"
  let ?d1 = "db_set_session d (s\<lparr>current_tokens := tokens\<rparr>)"
  have f: "faults ?d1 = faults d" by (simp add: db_set_session_def)
  have c: "db_commit ?d1 = (Inr (), ?d1\<lparr>persisted := working ?d1, faults := tl (faults d)\<rparr>)"
    using a f by (cases "faults d") (auto simp: db_commit_def)
  have u: "update_tokens d i tokens =
      (Inr (s\<lparr>current_tokens := tokens\<rparr>),
       ?d1\<lparr>persisted := working ?d1, faults := tl (faults d)\<rparr>)"
    using a c by (simp add: update_tokens_def Let_def)
  have g: "db_get_session ?d1 i = Some (s\<lparr>current_tokens := tokens\<rparr>)"
    using a db_get_session_id[of d i s] by (intro db_get_after_set) auto
  show "fst (update_tokens d i tokens) = Inr (s\<lparr>current_tokens := tokens\<rparr>)"
    by (simp add: u)
  show "persisted (snd (update_tokens d i tokens)) = working (snd (update_tokens d i tokens))"
    by (simp add: u)
  show "db_get_session (snd (update_tokens d i tokens)) i
          = Some (s\<lparr>current_tokens := tokens\<rparr>)"
    using g by (simp add: u db_get_session_def)
next
  fix s assume a: "db_get_session d i = Some s \<and> faults d \<noteq> [] \<and> hd (faults d)"
  let ?d1 = "db_set_session d (s\<lparr>current_tokens := tokens\<rparr>)"
  have f: "faults ?d1 = faults d" "persisted ?d1 = persisted d"
    by (simp_all add: db_set_session_def)
  have c: "db_commit ?d1 =
      (Inl SQLAlchemyError, ?d1\<lparr>working := persisted d, faults := tl (faults d)\<rparr>)"
    using a f by (cases "faults d") (auto simp: db_commit_def)
  have u: "update_tokens d i tokens =
      (Inl SQLAlchemyError, ?d1\<lparr>working := persisted d, faults := tl (faults d)\<rparr>)"
    using a c by (simp add: update_tokens_def Let_def)
  show "fst (update_tokens d i tokens) = Inl SQLAlchemyError" by (simp add: u)
  show "persisted (snd (update_tokens d i tokens)) = persisted d" by (simp add: u f)
qed

theorem update_tokens_unconditional_witness:
  "db_get_session (demo_db [False]) 1 = Some demo_session
   \<and> \<not> (faults (demo_db [False]) \<noteq> [] \<and> hd (faults (demo_db [False])))
   \<and> fst (update_tokens (demo_db [False]) 1 150) = Inr (demo_session\<lparr>current_tokens := 150\<rparr>)
   \<and> db_get_session (demo_db [True]) 1 = Some demo_session
   \<and> faults (demo_db [True]) \<noteq> [] \<and> hd (faults (demo_db [True]))
   \<and> fst (update_tokens (demo_db [True]) 1 150) = Inl SQLAlchemyError
   \<and> db_get_session (demo_db []) 2 = None
   \<and> update_tokens (demo_db []) 2 150 = (Inl (ValueError ''Session not found'' 2), demo_db [])"
proof -
  have g: "\<And>fs. db_get_session (demo_db fs) 1 = Some demo_session"
    by (simp add: db_get_session_def demo_db_def demo_session_def)
  have n: "db_get_session (demo_db []) 2 = None"
    by (simp add: db_get_session_def demo_db_def demo_session_def)
  have f1: "\<not> (faults (demo_db [False]) \<noteq> [] \<and> hd (faults (demo_db [False])))"
    by (simp add: demo_db_def)
  have f2: "faults (demo_db [True]) \<noteq> [] \<and> hd (faults (demo_db [True]))"
    by (simp add: demo_db_def)
  show ?thesis
    using update_tokens_unconditional[of "demo_db [False]" 1 150]
          update_tokens_unconditional[of "demo_db [True]" 1 150]
          update_tokens_unconditional[of "demo_db []" 2 150] g n f1 f2
    by simp
qed

subsection \<open>Spawn\<close>

text \<open>
  C5, as stated, fails: when the last commit of \<open>execute_spawn\<close> (lineage row and parent
  status) fails, the checkpoint 10 and the child session 11 stay in the committed store.
\<close>

theorem execute_spawn_counterexample:
  "fst (execute_spawn demo_llm (demo_spawn_db [False, False, True]) (10, 11, 12) 1
          ''context_critical'' None) = Inl SQLAlchemyError
   \<and> map checkpoint_id (checkpoints (persisted (snd
        (execute_spawn demo_llm (demo_spawn_db [False, False, True]) (10, 11, 12) 1
           ''context_critical'' None)))) = [10]
   \<and> map session_id (sessions (persisted (snd
        (execute_spawn demo_llm (demo_spawn_db [False, False, True]) (10, 11, 12) 1
           ''context_critical'' None)))) = [1, 11]
   \<and> checkpoints (persisted (demo_spawn_db [False, False, True])) = []
   \<and> map session_id (sessions (persisted (demo_spawn_db [False, False, True]))) = [1]"
  by (simp add: execute_spawn_def create_checkpoint_def create_session_def db_get_session_def
      db_set_session_def db_add_session_def db_add_checkpoint_def db_add_lineage_def
      db_commit_def context_usage_percent_def context_usage_def py_truediv_def
      demo_spawn_db_def demo_parent_def demo_llm_def Let_def)

text \<open>
  C5, amended: \<open>execute_spawn\<close> is not atomic. The checkpoint and the child session are
  committed when they are created. If the parent exists, the handoff prompt is produced,
  these two commits succeed and the last commit fails, then the error is raised, the
  lineage table and the rows of the sessions that existed (the parent's status among
  them) are as before, and the committed store has gained the checkpoint and the child
  session.
\<close>

theorem execute_spawn_not_atomic:
  assumes fresh: "working d = persisted d"
      and parent: "db_get_session d parent_id = Some parent"
      and prompt: "llm parent reason = Inr prompt"
      and sched: "faults d = False # False # True # rest"
  shows "fst (execute_spawn llm d (checkpoint_new_id, child_new_id, lineage_new_id)
                parent_id reason task) = Inl SQLAlchemyError
    \<and> sessions (persisted (snd (execute_spawn llm d
            (checkpoint_new_id, child_new_id, lineage_new_id) parent_id reason task)))
         = sessions (persisted d) @
           [\<lparr>session_id = child_new_id,
             task_description = (case task of None \<Rightarrow> prompt
                                 | Some t \<Rightarrow> if t = [] then prompt else t),
             max_tokens = (if max_tokens parent = 0 then DEFAULT_MAX_TOKENS
                           else max_tokens parent),
             current_tokens = 0, status = ACTIVE, created_at = now d\<rparr>]
    \<and> map checkpoint_id (checkpoints (persisted (snd (execute_spawn llm d
            (checkpoint_new_id, child_new_id, lineage_new_id) parent_id reason task))))
         = map checkpoint_id (checkpoints (persisted d)) @ [checkpoint_new_id]
    \<and> session_lineage (persisted (snd (execute_spawn llm d
            (checkpoint_new_id, child_new_id, lineage_new_id) parent_id reason task)))
         = session_lineage (persisted d)"
  using parent prompt sched fresh[symmetric]
  by (simp add: execute_spawn_def create_checkpoint_def create_session_def
        db_add_session_def db_add_checkpoint_def db_add_lineage_def db_set_session_def
        db_get_session_def commit_ok commit_fail Let_def context_usage_percent_eq)

theorem execute_spawn_not_atomic_witness:
  "working (demo_spawn_db [False, False, True]) = persisted (demo_spawn_db [False, False, True])
   \<and> db_get_session (demo_spawn_db [False, False, True]) 1 = Some demo_parent
   \<and> demo_llm demo_parent ''context_critical'' = Inr ''Continue the parser refactoring''
   \<and> faults (demo_spawn_db [False, False, True]) = False # False # True # []
   \<and> fst (execute_spawn demo_llm (demo_spawn_db [False, False, True]) (10, 11, 12) 1
            ''context_critical'' None) = Inl SQLAlchemyError
   \<and> session_lineage (persisted (snd (execute_spawn demo_llm
        (demo_spawn_db [False, False, True]) (10, 11, 12) 1 ''context_critical'' None))) = []"
proof -
  have a: "working (demo_spawn_db [False, False, True])
             = persisted (demo_spawn_db [False, False, True])"
    by (simp add: demo_spawn_db_def)
  have b: "db_get_session (demo_spawn_db [False, False, True]) 1 = Some demo_parent"
    by (simp add: db_get_session_def demo_spawn_db_def demo_parent_def)
  have c: "demo_llm demo_parent ''context_critical'' = Inr ''Continue the parser refactoring''"
    by (simp add: demo_llm_def)
  have e: "faults (demo_spawn_db [False, False, True]) = False # False # True # []"
    by (simp add: demo_spawn_db_def)
  have l: "session_lineage (persisted (demo_spawn_db [False, False, True])) = []"
    by (simp add: demo_spawn_db_def)
  show ?thesis
    using execute_spawn_not_atomic[where d = "demo_spawn_db [False, False, True]"
        and parent_id = 1 and parent = demo_parent and llm = demo_llm
        and reason = "''context_critical''" and prompt = "''Continue the parser refactoring''"
        and rest = "[]" and checkpoint_new_id = 10 and child_new_id = 11
        and lineage_new_id = 12 and task = None] a b c e l
    by simp
qed

subsection \<open>Reading the usage of a transcript\<close>

lemma usage_of_line_turn:
  assumes "sublist ''\"type\":\"assistant\"'' line"
      and "loads line = Some (JObj msg)"
      and "map_of msg ''type'' = Some (JStr ''assistant'')"
      and "map_of msg ''message'' = Some (JObj message)"
      and "map_of message ''usage'' = Some (JObj usage)"
      and "usage \<noteq> []"
      and "(case map_of usage ''input_tokens'' of None \<Rightarrow> JInt 0 | Some v \<Rightarrow> v) = JInt a"
      and "(case map_of usage ''cache_creation_input_tokens'' of None \<Rightarrow> JInt 0 | Some v \<Rightarrow> v)
             = JInt c"
  shows "usage_of_line loads line = Inr (Some (JInt (a + c)))"
  using assms by (simp add: usage_of_line_def)

lemma scan_reversed_skip:
  "\<forall>l \<in> set skipped. usage_of_line loads l = Inr None \<Longrightarrow>
   scan_reversed loads (skipped @ rest) = scan_reversed loads rest"
  by (induction skipped) auto


lemma demo_lines:
  "split_char newline (strip demo_transcript)
     = [''{\"type\":\"user\"}''] @ demo_usage_line # [''{\"type\":\"system\"}'']"
  by (simp add: demo_transcript_def demo_usage_line_def strip_def is_space_def newline_def)


text \<open>
  C3: when the scan from the end of the transcript stops at an assistant turn with a usage
  block (the lines after it are passed over), the extracted count is \<open>input_tokens\<close> plus
  \<open>cache_creation_input_tokens\<close>, an absent count being 0, whatever the block holds for
  \<open>cache_read_input_tokens\<close>. The witness is the transcript of the specification: the
  counts 1000, 500 and 50000 give 1500.
\<close>

theorem extract_usage_excludes_cache_read:
  assumes lines: "split_char newline (strip content) = before @ line # after"
      and after: "\<forall>l \<in> set after. usage_of_line loads l = Inr None"
      and marker: "sublist ''\"type\":\"assistant\"'' line"
      and parsed: "loads line = Some (JObj msg)"
      and type: "map_of msg ''type'' = Some (JStr ''assistant'')"
      and message: "map_of msg ''message'' = Some (JObj message)"
      and usage: "map_of message ''usage'' = Some (JObj usage)" "usage \<noteq> []"
      and input: "(case map_of usage ''input_tokens'' of None \<Rightarrow> JInt 0 | Some v \<Rightarrow> v)
                    = JInt a"
      and creation:
            "(case map_of usage ''cache_creation_input_tokens'' of None \<Rightarrow> JInt 0 | Some v \<Rightarrow> v)
               = JInt c"
  shows "extract_usage_from_content loads content = Inr (Some (JInt (a + c)))"
proof -
  have turn: "usage_of_line loads line = Inr (Some (JInt (a + c)))"
    using marker parsed type message usage input creation by (rule usage_of_line_turn)
  have "extract_usage_from_content loads content
          = scan_reversed loads (rev after @ line # rev before)"
    by (simp add: extract_usage_from_content_def lines)
  also have "\<dots> = scan_reversed loads (line # rev before)"
    using after by (intro scan_reversed_skip) simp
  also have "\<dots> = Inr (Some (JInt (a + c)))"
    by (simp add: turn)
  finally show ?thesis .
qed

theorem extract_usage_excludes_cache_read_witness:
  "split_char newline (strip demo_transcript)
     = [''{\"type\":\"user\"}''] @ demo_usage_line # [''{\"type\":\"system\"}'']
   \<and> usage_of_line demo_loads ''{\"type\":\"system\"}'' = Inr None
   \<and> sublist ''\"type\":\"assistant\"'' demo_usage_line
   \<and> demo_loads demo_usage_line
       = Some (JObj [(''type'', JStr ''assistant''),
                     (''message'', JObj [(''usage'', JObj demo_usage)])])
   \<and> map_of demo_usage ''cache_read_input_tokens'' = Some (JInt 50000)
   \<and> extract_usage_from_content demo_loads demo_transcript = Inr (Some (JInt 1500))"
proof -
  have after: "\<forall>l \<in> set [''{\"type\":\"system\"}'']. usage_of_line demo_loads l = Inr None"
    by (simp add: usage_of_line_def sublist_code prefix_code)
  have marker: "sublist ''\"type\":\"assistant\"'' demo_usage_line"
    by (simp add: demo_usage_line_def sublist_code prefix_code)
  have parsed: "demo_loads demo_usage_line
       = Some (JObj [(''type'', JStr ''assistant''),
                     (''message'', JObj [(''usage'', JObj demo_usage)])])"
    by (simp add: demo_loads_def demo_usage_def)
  have r: "map_of demo_usage ''cache_read_input_tokens'' = Some (JInt 50000)"
    by (simp add: demo_usage_def)
  have u: "map_of [(''usage'', JObj demo_usage)] ''usage'' = Some (JObj demo_usage)"
          "demo_usage \<noteq> []"
          "(case map_of demo_usage ''input_tokens'' of None \<Rightarrow> JInt 0 | Some v \<Rightarrow> v)
             = JInt 1000"
          "(case map_of demo_usage ''cache_creation_input_tokens'' of None \<Rightarrow> JInt 0
            | Some v \<Rightarrow> v) = JInt 500"
    by (simp_all add: demo_usage_def)
  show ?thesis
    using extract_usage_excludes_cache_read[where content = demo_transcript
        and loads = demo_loads and before = "[''{\"type\":\"user\"}'']"
        and line = demo_usage_line and after = "[''{\"type\":\"system\"}'']"
        and msg = "[(''type'', JStr ''assistant''),
                    (''message'', JObj [(''usage'', JObj demo_usage)])]"
        and message = "[(''usage'', JObj demo_usage)]" and usage = demo_usage
        and a = 1000 and c = 500]
      demo_lines after marker parsed r u
    by simp
qed

subsection \<open>The watcher\<close>

lemma dict_set_subset: "set (dict_set kvs k v) \<subseteq> insert (k, v) (set kvs)"
  by (auto simp: dict_set_def split: if_splits)

lemma dict_pop_subset: "set (dict_pop kvs k) \<subseteq> set kvs"
  by (auto simp: dict_pop_def)

lemma update_project_tokens_cache:
  assumes "update_project_tokens e d new_id w src project_name transcript_path = (w', d')"
      and "kp \<in> set (cached_projects w')"
  shows "kp \<in> set (cached_projects w) \<or> pd_context_usage (snd kp) \<le> 99 / 100"
  using assms
  by (auto simp: update_project_tokens_def Let_def
           dest!: subsetD[OF dict_set_subset]
           split: option.splits sum.splits prod.splits if_splits)

lemma handle_deleted_transcript_cache:
  assumes "handle_deleted_transcript w d path = (outcome, w', d')"
  shows "set (cached_projects w') \<subseteq> set (cached_projects w)"
  using assms
  by (auto simp: handle_deleted_transcript_def Let_def
           dest: subsetD[OF dict_pop_subset]
           split: option.splits sum.splits prod.splits if_splits)

lemma reachable_cache_bound:
  "reachable w \<Longrightarrow> kp \<in> set (cached_projects w) \<Longrightarrow> pd_context_usage (snd kp) \<le> 99 / 100"
proof (induction arbitrary: kp rule: reachable.induct)
  case (started srcs)
  then show ?case by simp
next
  case (updated w e d new_id src project_name transcript_path w' d')
  from update_project_tokens_cache[OF updated.hyps(2) updated.prems] updated.IH
  show ?case by blast
next
  case (deleted w d path outcome w' d')
  from handle_deleted_transcript_cache[OF deleted.hyps(2)] deleted.prems deleted.IH
  show ?case by blast
qed

lemma get_status_projects:
  "set (projects (get_status w time)) = (\<lambda>kp. project_entry (snd kp)) ` set (cached_projects w)"
  by (force simp: get_status_def Let_def)

lemma demo_update:
  "update_project_tokens demo_env demo_empty_db 5 demo_watcher ''claude'' ''ralph'' demo_path
     = (demo_watcher_active, demo_db_active)"
  by (simp add: update_project_tokens_def get_last_assistant_usage_def
      extract_usage_from_content_def usage_of_line_def strip_def demo_env_def
      demo_empty_db_def demo_watcher_def demo_watcher_active_def demo_db_active_def
      latest_session_def new_db_session_def db_commit_def db_add_session_def
      py_truediv_def dict_set_def BYTES_PER_TOKEN_def SYSTEM_OVERHEAD_TOKENS_def
      MAX_CONTEXT_TOKENS_def Let_def)

lemma demo_reachable: "reachable demo_watcher_active"
  using reachable.updated[OF reachable.started demo_update[unfolded demo_watcher_def]]
  by simp

text \<open>
  C10: in every state the watcher can reach, each project of the status snapshot that
  \<open>get_status\<close> builds has a \<open>contextUsage\<close> of at most 0.99. The witness is a project
  whose \<open>currentTokens\<close> equals its \<open>maxTokens\<close>: its \<open>contextUsage\<close> is 0.99, not 1.
\<close>

theorem get_status_context_usage_below_one:
  assumes "reachable w"
  shows "\<forall>p \<in> set (projects (get_status w time)). contextUsage p \<le> 99 / 100"
proof
  fix p assume "p \<in> set (projects (get_status w time))"
  then obtain kp where kp: "kp \<in> set (cached_projects w)" and p: "p = project_entry (snd kp)"
    unfolding get_status_projects by blast
  from reachable_cache_bound[OF assms kp] show "contextUsage p \<le> 99 / 100"
    by (simp add: p project_entry_def)
qed


theorem get_status_context_usage_below_one_witness:
  "reachable demo_watcher_active
   \<and> list_all (\<lambda>p. contextUsage p \<le> 99 / 100) (projects (get_status demo_watcher_active 9))
   \<and> map currentTokens (projects (get_status demo_watcher_active 9)) = [200000]
   \<and> map maxTokens (projects (get_status demo_watcher_active 9)) = [200000]
   \<and> map contextUsage (projects (get_status demo_watcher_active 9)) = [99 / 100]"
  using get_status_context_usage_below_one[OF demo_reachable, of 9] demo_reachable
  by (simp add: get_status_def project_entry_def demo_watcher_active_def)

text \<open>
  C4, on the code: a transcript is deleted that is the one cached for its project, and the
  session of the project exists and is active. The handler raises \<open>AttributeError\<close> when it
  reads \<open>SessionStatus.INACTIVE\<close>, which the enumeration does not have; the status of the
  session stays active and the project stays in the cache.
\<close>

theorem handle_deleted_transcript_failing_input:
  "extract_project_info demo_watcher_active demo_path = Some (''claude'', ''ralph'')
   \<and> map (\<lambda>kp. pd_transcript_path (snd kp)) (cached_projects demo_watcher_active) = [demo_path]
   \<and> map status (sessions (persisted demo_db_active)) = [ACTIVE]
   \<and> handle_deleted_transcript demo_watcher_active demo_db_active demo_path
       = (Inl (AttributeError ''INACTIVE''), demo_watcher_active, demo_db_active)"
  by (simp add: handle_deleted_transcript_def extract_project_info_def split_def
      split_char.simps decode_project_name_def patterns_def re_sub_prefix_def
      sublist_code prefix_code
      latest_session_def new_db_session_def SessionStatus_member_def
      demo_watcher_active_def demo_watcher_def demo_db_active_def demo_path_def Let_def)

subsection \<open>Keyword scores\<close>

lemma count_matches:
  "sum_list (map (\<lambda>kw. if P kw then 1 else 0) kws) = int (length (filter P kws))"
  by (induction kws) auto

lemma calc_score_eq:
  "keywords \<noteq> [] \<Longrightarrow>
   calc_score keywords m
     = real (length (filter (\<lambda>kw. sublist kw (lower (memory_content m))) keywords))
       / real (length keywords)"
  by (simp add: calc_score_def Let_def count_matches)

lemma select_memories_subset:
  "select_memories d sid keywords top_k = Inr rows \<Longrightarrow> m \<in> set rows \<Longrightarrow>
   m \<in> set (memories (working d)) \<and> memory_session_id m = sid"
  by (auto simp: select_memories_def split: if_splits dest!: in_set_takeD)

lemma demo_search_index:
  "search_index demo_memory_db 1 ''jwt jwt auth'' 20
     = Inr [index_item (demo_memories ! 1) (2 / 3), index_item (demo_memories ! 0) 1]"
  by (simp add: search_index_def select_memories_def calc_score_def
      split_whitespace_def is_space_def lower_def lower_char_def ilike_def
      sublist_code prefix_code index_item_def
      demo_memory_db_def demo_memories_def Let_def)

text \<open>
  C7, as stated, fails: for the query \<open>jwt jwt auth\<close> the memory \<open>JWT tokens\<close> is
  returned with the score 2/3, where the distinct tokens \<open>jwt\<close> and \<open>auth\<close> give 1/2.
\<close>

theorem search_index_counterexample:
  "search_index demo_memory_db 1 ''jwt jwt auth'' 20
     = Inr [index_item (demo_memories ! 1) (2 / 3), index_item (demo_memories ! 0) 1]
   \<and> memory_content (demo_memories ! 1) = ''JWT tokens''
   \<and> score (index_item (demo_memories ! 1) (2 / 3)) = 2 / 3
   \<and> spec_score ''jwt jwt auth'' ''JWT tokens'' = 1 / 2"
proof -
  have "memory_content (demo_memories ! 1) = ''JWT tokens''"
    by (simp add: demo_memories_def)
  moreover have "score (index_item (demo_memories ! 1) (2 / 3)) = 2 / 3"
    by (simp add: index_item_def)
  moreover have "spec_score ''jwt jwt auth'' ''JWT tokens'' = 1 / 2"
    by (simp add: spec_score_def split_whitespace_def is_space_def
        lower_def lower_char_def sublist_code prefix_code)
  ultimately show ?thesis using demo_search_index by blast
qed

text \<open>
  C7, amended: the score of each memory that \<open>search_index\<close> returns is the number of
  query tokens that occur in the lowercased content, divided by the number of query
  tokens, a repeated token counting each time (the query lowercased and split at white
  space). When no token is repeated this is the score of the specification.
\<close>

theorem search_index_score_counts_repetitions:
  assumes "search_index d sid query top_k = Inr items" and "item \<in> set items"
  shows "\<exists>m \<in> set (memories (working d)).
           item_id item = memory_id m \<and> memory_session_id m = sid
           \<and> score item =
               real (length (filter (\<lambda>kw. sublist kw (lower (memory_content m)))
                               (split_whitespace (lower query))))
               / real (length (split_whitespace (lower query)))
           \<and> (distinct (split_whitespace (lower query)) \<longrightarrow>
                score item = spec_score query (memory_content m))"
proof -
  let ?kws = "split_whitespace (lower query)"
  from assms have ne: "?kws \<noteq> []"
    by (auto simp: search_index_def Let_def split: if_splits)
  with assms(1) obtain rows where rows: "select_memories d sid ?kws top_k = Inr rows"
    and items: "items = map (\<lambda>m. index_item m (calc_score ?kws m)) rows"
    by (auto simp: search_index_def Let_def split: sum.splits)
  from assms(2) items obtain m where m: "m \<in> set rows"
    and item: "item = index_item m (calc_score ?kws m)" by auto
  have sc: "score item = real (length (filter (\<lambda>kw. sublist kw (lower (memory_content m))) ?kws))
               / real (length ?kws)"
    by (simp add: item index_item_def calc_score_eq[OF ne])
  have "distinct ?kws \<longrightarrow> score item = spec_score query (memory_content m)"
    by (simp add: sc spec_score_def Let_def distinct_remdups_id)
  with select_memories_subset[OF rows m] sc item show ?thesis
    by (intro bexI[of _ m]) (simp_all add: index_item_def)
qed


theorem search_index_score_counts_repetitions_witness:
  "search_index demo_memory_db 1 ''jwt jwt auth'' 20
     = Inr [index_item (demo_memories ! 1) (2 / 3), index_item (demo_memories ! 0) 1]
   \<and> index_item (demo_memories ! 1) (2 / 3)
        \<in> set [index_item (demo_memories ! 1) (2 / 3), index_item (demo_memories ! 0) 1]
   \<and> (\<exists>m \<in> set (memories (working demo_memory_db)).
         item_id (index_item (demo_memories ! 1) (2 / 3)) = memory_id m
         \<and> memory_session_id m = 1
         \<and> score (index_item (demo_memories ! 1) (2 / 3)) =
             real (length (filter (\<lambda>kw. sublist kw (lower (memory_content m)))
                             (split_whitespace (lower ''jwt jwt auth''))))
             / real (length (split_whitespace (lower ''jwt jwt auth'')))
         \<and> (distinct (split_whitespace (lower ''jwt jwt auth'')) \<longrightarrow>
              score (index_item (demo_memories ! 1) (2 / 3))
                = spec_score ''jwt jwt auth'' (memory_content m)))"
proof -
  have mem: "index_item (demo_memories ! 1) (2 / 3)
        \<in> set [index_item (demo_memories ! 1) (2 / 3), index_item (demo_memories ! 0) 1]"
    by simp
  from search_index_score_counts_repetitions[OF demo_search_index mem]
  show ?thesis using demo_search_index mem by blast
qed

subsection \<open>Hybrid search\<close>

lemma ranked_above_sorted:
  "sorted (map k ys) \<Longrightarrow> k a < k b \<Longrightarrow> a \<in> set ys \<Longrightarrow> b \<in> set ys \<Longrightarrow>
   ranked_above a b ys"
  for k :: "'a \<Rightarrow> real"
proof (induction ys)
  case Nil
  then show ?case by simp
next
  case (Cons y ys)
  have le: "\<forall>x \<in> set ys. k y \<le> k x" using Cons.prems(1) by simp
  have "y \<noteq> b"
  proof
    assume "y = b"
    with le Cons.prems(2,3) show False by auto
  qed
  then show ?case
    using Cons by (auto simp: ranked_above_def)
qed

lemma ranked_above_take:
  "ranked_above a b xs \<Longrightarrow> b \<in> set (take n xs) \<Longrightarrow> ranked_above a b (take n xs)"
proof (induction xs arbitrary: n)
  case Nil
  then show ?case by (simp add: ranked_above_def)
next
  case (Cons x xs)
  then show ?case
    by (cases n) (auto simp: ranked_above_def split: if_splits)
qed

lemma ranked_above_filter:
  "ranked_above a b xs \<Longrightarrow> P a \<Longrightarrow> ranked_above a b (filter P xs)"
  by (induction xs) (auto simp: ranked_above_def split: if_splits)

lemma map_filter_ids:
  assumes "\<And>x y. f x = Some y \<Longrightarrow> g y = x"
  shows "map g (List.map_filter f xs) = filter (\<lambda>x. f x \<noteq> None) xs"
  using assms by (induction xs) (auto simp: List.map_filter_simps split: option.splits)

lemma ranks_dom: "ranks ids x \<noteq> None \<longleftrightarrow> x \<in> set ids"
proof -
  have "fst ` set (zip ids [1 ..< Suc (length ids)]) = set ids"
    by (metis diff_Suc_1 length_upt map_fst_zip set_map)
  then show ?thesis
    by (simp add: ranks_def map_of_eq_None_iff)
qed

lemma rrf_both_beats_one:
  assumes "ranks keyword_ids a = Some ra_kw" and "ranks vector_ids a = Some ra_vec"
      and "(ranks keyword_ids b = Some rb \<and> ranks vector_ids b = None)
           \<or> (ranks keyword_ids b = None \<and> ranks vector_ids b = Some rb)"
      and "rb = ra_kw \<or> rb = ra_vec"
  shows "combined_score (1 / 2) (1 / 2) keyword_ids vector_ids b
       < combined_score (1 / 2) (1 / 2) keyword_ids vector_ids a"
  using assms by (auto simp: combined_score_def Let_def)


lemma keyword_lookup_id:
  "map_of (rev (map (\<lambda>r. (item_id r, r)) rs)) x = Some item \<Longrightarrow> item_id item = x"
  by (auto dest!: map_of_SomeD)

lemma keyword_lookup_dom:
  "map_of (rev (map (\<lambda>r. (item_id r, r)) rs)) x \<noteq> None \<longleftrightarrow> x \<in> set (map item_id rs)"
  by (force simp: map_of_eq_None_iff)

lemma find_memory_id: "find (\<lambda>m. memory_id m = x) ms = Some m \<Longrightarrow> memory_id m = x"
  by (auto simp: find_Some_iff)

text \<open>
  C8: in a hybrid search with both weights 0.5, let a memory have a rank in the keyword
  ranking and a rank in the vector ranking, and let another memory have a rank in one
  ranking only, equal to one of the ranks of the first. Then the combined score of the
  first, \<open>0.5 \<cdot> 1/(60 + rank_kw) + 0.5 \<cdot> 1/(60 + rank_vec)\<close>, is strictly larger, and
  whenever the second memory is returned the first is returned before it, in whatever
  order the set of candidates is listed. Scores are real numbers here.
\<close>

theorem hybrid_search_both_rankings_first:
  assumes kw: "search_index d sid query (top_k * 2) = Inr keyword_results"
      and a_kw: "ranks (map item_id keyword_results) a = Some ra_kw"
      and a_vec: "ranks vector_ids a = Some ra_vec"
      and b_one: "(ranks (map item_id keyword_results) b = Some rb \<and> ranks vector_ids b = None)
                  \<or> (ranks (map item_id keyword_results) b = None \<and> ranks vector_ids b = Some rb)"
      and same: "rb = ra_kw \<or> rb = ra_vec"
      and res: "hybrid_search set_order vector_ids d sid query top_k (1 / 2) (1 / 2) = Inr results"
      and b_in: "b \<in> set (map item_id results)"
  shows "combined_score (1 / 2) (1 / 2) (map item_id keyword_results) vector_ids a
           = 1 / 2 * (1 / (60 + real ra_kw)) + 1 / 2 * (1 / (60 + real ra_vec))
       \<and> combined_score (1 / 2) (1 / 2) (map item_id keyword_results) vector_ids b
           < combined_score (1 / 2) (1 / 2) (map item_id keyword_results) vector_ids a
       \<and> ranked_above a b (map item_id results)"
proof -
  let ?kw = "map item_id keyword_results"
  let ?combined = "combined_score (1 / 2) (1 / 2) ?kw vector_ids"
  let ?all = "sort_key set_order (remdups (?kw @ vector_ids))"
  let ?full = "sort_key (\<lambda>x. - ?combined x) ?all"
  let ?lookup = "map_of (rev (map (\<lambda>r. (item_id r, r)) keyword_results))"
  let ?build = "\<lambda>memory.
       case ?lookup memory of
         Some item \<Rightarrow> Some (item\<lparr>score := ?combined memory\<rparr>)
       | None \<Rightarrow>
          (case find (\<lambda>m. memory_id m = memory) (memories (working d)) of
             Some m \<Rightarrow> Some (index_item m (?combined memory))
           | None \<Rightarrow> None)"
  have results: "results = List.map_filter ?build (take (nat top_k) ?full)"
    using res kw by (simp add: hybrid_search_def Let_def)
  have build_id: "\<And>x y. ?build x = Some y \<Longrightarrow> item_id y = x"
    by (auto simp: index_item_def split: option.splits
             dest: keyword_lookup_id find_memory_id)
  have ids: "map item_id results = filter (\<lambda>x. ?build x \<noteq> None) (take (nat top_k) ?full)"
    unfolding results by (rule map_filter_ids) (rule build_id)
  have value_a: "?combined a = 1 / 2 * (1 / (60 + real ra_kw)) + 1 / 2 * (1 / (60 + real ra_vec))"
    using a_kw a_vec by (simp add: combined_score_def Let_def)
  have less: "?combined b < ?combined a"
    by (rule rrf_both_beats_one[OF a_kw a_vec b_one same])
  have a_all: "a \<in> set ?full"
    using a_kw ranks_dom[of ?kw a] by simp
  have b_all: "b \<in> set ?full"
    using b_one ranks_dom[of ?kw b] ranks_dom[of vector_ids b] by auto
  have "sorted (map (\<lambda>x. - ?combined x) ?full)"
    by (rule sorted_sort_key)
  then have full: "ranked_above a b ?full"
    using less a_all b_all by (intro ranked_above_sorted[where k = "\<lambda>x. - ?combined x"]) simp_all
  have b_take: "b \<in> set (take (nat top_k) ?full)"
    using b_in unfolding ids by simp
  have taken: "ranked_above a b (take (nat top_k) ?full)"
    by (rule ranked_above_take[OF full b_take])
  have "?lookup a \<noteq> None"
    using a_kw ranks_dom[of ?kw a] keyword_lookup_dom[of keyword_results a] by simp
  then have avail: "?build a \<noteq> None"
    by (auto split: option.splits)
  have "ranked_above a b (map item_id results)"
    unfolding ids using taken avail by (rule ranked_above_filter)
  with value_a less show ?thesis by simp
qed


lemma demo_jwt_search:
  "search_index demo_memory_db 1 ''jwt'' (10 * 2)
     = Inr [index_item (demo_memories ! 1) 1, index_item (demo_memories ! 0) 1]"
  by (simp add: search_index_def select_memories_def calc_score_def
      split_whitespace_def is_space_def lower_def lower_char_def ilike_def
      sublist_code prefix_code index_item_def
      demo_memory_db_def demo_memories_def Let_def)

lemma demo_jwt_ids:
  "map item_id [index_item (demo_memories ! 1) 1, index_item (demo_memories ! 0) 1] = [22, 21]"
  by (simp add: index_item_def demo_memories_def)

lemma demo_ranks:
  "ranks [22, 21] 22 = Some 1" "ranks [23, 22] 22 = Some 2"
  "ranks [22, 21] 23 = None" "ranks [23, 22] 23 = Some 1"
  "ranks [22, 21] 21 = Some 2" "ranks [23, 22] 21 = None"
  by (simp_all add: ranks_def upt_rec)

lemma demo_combined:
  "combined_score (1 / 2) (1 / 2) [22, 21] [23, 22] 22 = 123 / 7564"
  "combined_score (1 / 2) (1 / 2) [22, 21] [23, 22] 23 = 1 / 122"
  "combined_score (1 / 2) (1 / 2) [22, 21] [23, 22] 21 = 1 / 124"
  by (simp_all add: combined_score_def demo_ranks)

lemma demo_all_ids:
  "sort_key demo_set_order (remdups ([22, 21] @ [23, 22])) = [23, 22, 21]"
  by (simp add: demo_set_order_def)

lemma demo_sorted_ids:
  "take (nat 10) (sort_key (\<lambda>x. - combined_score (1 / 2) (1 / 2) [22, 21] [23, 22] x)
     [23, 22, 21]) = [22, 23, 21]"
  by (simp add: demo_combined)


lemma demo_hybrid:
  "hybrid_search demo_set_order [23, 22] demo_memory_db 1 ''jwt'' 10 (1 / 2) (1 / 2)
     = Inr [(index_item (demo_memories ! 1) 1)\<lparr>score := 123 / 7564\<rparr>,
            index_item (demo_memories ! 2) (1 / 122),
            (index_item (demo_memories ! 0) 1)\<lparr>score := 1 / 124\<rparr>]"
  unfolding hybrid_search_def demo_jwt_search sum.case Let_def demo_jwt_ids demo_all_ids
    demo_sorted_ids
  by (simp add: index_item_def demo_memories_def demo_memory_db_def demo_combined
      List.map_filter_simps)

lemma demo_hybrid_ids:
  "map item_id [(index_item (demo_memories ! 1) 1)\<lparr>score := 123 / 7564\<rparr>,
            index_item (demo_memories ! 2) (1 / 122),
            (index_item (demo_memories ! 0) 1)\<lparr>score := 1 / 124\<rparr>] = [22, 23, 21]"
  by (simp add: index_item_def demo_memories_def)

theorem hybrid_search_both_rankings_first_witness:
  "search_index demo_memory_db 1 ''jwt'' (10 * 2)
     = Inr [index_item (demo_memories ! 1) 1, index_item (demo_memories ! 0) 1]
   \<and> ranks [22, 21] 22 = Some 1 \<and> ranks [23, 22] 22 = Some 2
   \<and> ranks [22, 21] 23 = None \<and> ranks [23, 22] 23 = Some 1
   \<and> map item_id (projr (hybrid_search demo_set_order [23, 22] demo_memory_db 1 ''jwt'' 10
                           (1 / 2) (1 / 2))) = [22, 23, 21]
   \<and> combined_score (1 / 2) (1 / 2) [22, 21] [23, 22] 23
       < combined_score (1 / 2) (1 / 2) [22, 21] [23, 22] 22
   \<and> ranked_above 22 23 [22, 23, 21 :: uuid]"
proof -
  have b_one: "(ranks (map item_id [index_item (demo_memories ! 1) 1,
                                    index_item (demo_memories ! 0) 1]) 23 = Some 1
                \<and> ranks [23, 22] 23 = None)
               \<or> (ranks (map item_id [index_item (demo_memories ! 1) 1,
                                      index_item (demo_memories ! 0) 1]) 23 = None
                  \<and> ranks [23, 22] 23 = Some 1)"
    unfolding demo_jwt_ids by (simp add: demo_ranks)
  have a_kw: "ranks (map item_id [index_item (demo_memories ! 1) 1,
                                  index_item (demo_memories ! 0) 1]) 22 = Some 1"
    unfolding demo_jwt_ids by (simp add: demo_ranks)
  have b_in: "23 \<in> set (map item_id [(index_item (demo_memories ! 1) 1)\<lparr>score := 123 / 7564\<rparr>,
            index_item (demo_memories ! 2) (1 / 122),
            (index_item (demo_memories ! 0) 1)\<lparr>score := 1 / 124\<rparr>])"
    unfolding demo_hybrid_ids by simp
  have same: "(1::nat) = 1 \<or> (1::nat) = 2" by simp
  have ids: "map item_id (projr (hybrid_search demo_set_order [23, 22] demo_memory_db 1 ''jwt''
                                   10 (1 / 2) (1 / 2))) = [22, 23, 21]"
    unfolding demo_hybrid sum.sel demo_hybrid_ids ..
  note main = hybrid_search_both_rankings_first[OF demo_jwt_search a_kw demo_ranks(2) b_one
        same demo_hybrid b_in, unfolded demo_jwt_ids demo_hybrid_ids]
  have less: "combined_score (1 / 2) (1 / 2) [22, 21] [23, 22] 23
          < combined_score (1 / 2) (1 / 2) [22, 21] [23, 22] 22"
    by (rule conjunct1[OF conjunct2[OF main]])
  have above: "ranked_above 22 23 [22, 23, 21 :: uuid]"
    by (rule conjunct2[OF conjunct2[OF main]])
  show ?thesis
    by (intro conjI demo_jwt_search demo_ranks ids less above)
qed

end
